theory Spec2Isabelle
  imports Complex_Main
begin

section \<open>Proximal operators of norms (a2dr/proximal/norm.py)\<close>

text \<open>
  The operators of \<^verbatim>\<open>a2dr/proximal/norm.py\<close> work on numpy arrays and scipy sparse
  matrices of float64 numbers. The embedding takes the numbers to be the reals, so every
  statement below is about exact real arithmetic: rounding, overflow, \<^verbatim>\<open>inf\<close> and
  \<^verbatim>\<open>nan\<close> are outside it. Exceptions are values: an operator returns
  \<open>Inl e\<close> where the Python raises \<open>e\<close>, and \<open>Inr r\<close> where it returns \<open>r\<close>.
\<close>

subsection \<open>Errors and containers\<close>

text \<open>
  The Python exceptions the operators can raise, the validation failure of the composition
  transform, and two values that are no exceptions: \<open>NotFinite\<close> stands for a result
  with \<^verbatim>\<open>inf\<close> or \<^verbatim>\<open>nan\<close> entries, and \<open>NotModelled\<close> marks the operands
  whose numpy behaviour this embedding does not describe (broadcasting of unequal shapes,
  arrays of three and more dimensions in the matrix routines). No theorem below is about
  an input that reaches \<open>NotModelled\<close>.
\<close>

datatype py_error =
    NotImplementedError
  | UnboundLocalError
  | ValueError
  | IndexError
  | TypeError
  | LinAlgError
  | ValidationFailure
  | NotFinite
  | NotModelled

text \<open>
  A container is a numpy \<^verbatim>\<open>ndarray\<close> (\<open>issparse = False\<close>) or a scipy sparse matrix
  (\<open>issparse = True\<close>, what \<^verbatim>\<open>sparse.issparse\<close> answers). \<open>shape\<close> is its
  \<^verbatim>\<open>.shape\<close>, and \<open>entries\<close> lists its values in row-major order; for a sparse
  matrix that includes the zeros its storage leaves implicit, so two sparse matrices with
  the same values are the same container here, whatever their storage format.
\<close>

record container =
  issparse :: bool
  shape :: "nat list"
  entries :: "real list"

definition ndarray :: "nat list \<Rightarrow> real list \<Rightarrow> container" where
  "ndarray sh xs = \<lparr>issparse = False, shape = sh, entries = xs\<rparr>"

definition spmatrix :: "nat \<Rightarrow> nat \<Rightarrow> real list \<Rightarrow> container" where
  "spmatrix m n xs = \<lparr>issparse = True, shape = [m, n], entries = xs\<rparr>"

text \<open>
  The containers Python can build: as many entries as the shape says, and a sparse matrix
  is two-dimensional.
\<close>

definition wf :: "container \<Rightarrow> bool" where
  "wf v \<longleftrightarrow>
     length (entries v) = prod_list (shape v) \<and> (if issparse v then length (shape v) = 2 else True)"

definition map_entries :: "(real \<Rightarrow> real) \<Rightarrow> container \<Rightarrow> container" where
  "map_entries f v = v\<lparr>entries := map f (entries v)\<rparr>"

subsection \<open>Arithmetic of numpy and scipy.sparse\<close>

text \<open>
  \<^verbatim>\<open>v - x\<close> and \<^verbatim>\<open>v + x\<close> for a scalar \<open>x\<close>. numpy broadcasts the scalar. A scipy
  sparse matrix returns a copy of itself when \<open>x = 0\<close> and raises
  \<^verbatim>\<open>NotImplementedError\<close> ("subtracting a nonzero scalar from a sparse matrix is not
  supported", and likewise for adding) otherwise.
\<close>

definition sub_scalar :: "container \<Rightarrow> real \<Rightarrow> py_error + container" where
  "sub_scalar v x =
     (if issparse v \<and> x \<noteq> 0 then Inl NotImplementedError
      else Inr (map_entries (\<lambda>y. y - x) v))"

definition add_scalar :: "container \<Rightarrow> real \<Rightarrow> py_error + container" where
  "add_scalar v x =
     (if issparse v \<and> x \<noteq> 0 then Inl NotImplementedError
      else Inr (map_entries (\<lambda>y. y + x) v))"

text \<open>\<^verbatim>\<open>-v\<close>, \<^verbatim>\<open>x * v\<close> for a scalar \<open>x\<close>: elementwise, in both representations.\<close>

definition neg :: "container \<Rightarrow> container" where
  "neg v = map_entries uminus v"

definition mul_scalar :: "real \<Rightarrow> container \<Rightarrow> container" where
  "mul_scalar x v = map_entries (\<lambda>y. x * y) v"

text \<open>
  \<^verbatim>\<open>v / x\<close> for a scalar \<open>x\<close>. Dividing by zero does not raise in numpy, it fills the
  result with \<^verbatim>\<open>inf\<close> and \<^verbatim>\<open>nan\<close>; the reals have neither, and the model
  answers \<open>NotFinite\<close> there.
\<close>

definition div_scalar :: "container \<Rightarrow> real \<Rightarrow> py_error + container" where
  "div_scalar v x = (if x = 0 then Inl NotFinite else Inr (map_entries (\<lambda>y. y / x) v))"

text \<open>
  \<^verbatim>\<open>np.maximum(v, 0)\<close> on an array and \<^verbatim>\<open>v.maximum(0)\<close> on a sparse matrix: the
  elementwise maximum with zero, in the representation of \<open>v\<close>.
\<close>

definition max_elemwise :: "container \<Rightarrow> real \<Rightarrow> container" where
  "max_elemwise v x = map_entries (\<lambda>y. max y x) v"

text \<open>
  \<^verbatim>\<open>u - w\<close> for two containers of one shape: elementwise. The difference of two sparse
  matrices is sparse, a difference with a dense operand is dense. Two sparse matrices of
  different shapes raise \<^verbatim>\<open>ValueError\<close> ("inconsistent shapes"); with a dense operand
  numpy broadcasts unequal shapes where it can, which is not modelled.
\<close>

definition sub_containers :: "container \<Rightarrow> container \<Rightarrow> py_error + container" where
  "sub_containers u w =
     (if shape u = shape w
      then Inr \<lparr>issparse = issparse u \<and> issparse w, shape = shape u,
                entries = map2 (\<lambda>x y. x - y) (entries u) (entries w)\<rparr>
      else if issparse u \<and> issparse w then Inl ValueError
      else Inl NotModelled)"

text \<open>
  The Euclidean norm of the entries: \<^verbatim>\<open>np.linalg.norm(v, 'fro')\<close> of a matrix,
  \<^verbatim>\<open>np.linalg.norm(v, 2)\<close> of a one-dimensional array and
  \<^verbatim>\<open>sparse.linalg.norm(v, 'fro')\<close> of a sparse matrix. numpy refuses the Frobenius
  norm of an array that is no matrix with \<^verbatim>\<open>ValueError\<close>; its order 2 norm of a
  matrix is the spectral norm, which is not modelled. \<^verbatim>\<open>sparse.linalg.norm(v, 2)\<close>
  raises \<^verbatim>\<open>NotImplementedError\<close> (scipy has no sparse spectral norm).
\<close>

datatype norm_ord = Fro | Two

definition l2norm :: "real list \<Rightarrow> real" where
  "l2norm xs = sqrt (sum_list (map (\<lambda>x. x\<^sup>2) xs))"

definition np_linalg_norm :: "container \<Rightarrow> norm_ord \<Rightarrow> py_error + real" where
  "np_linalg_norm v ord =
     (case ord of
        Fro \<Rightarrow> if length (shape v) = 2 then Inr (l2norm (entries v)) else Inl ValueError
      | Two \<Rightarrow>
          if length (shape v) = 1 then Inr (l2norm (entries v))
          else if length (shape v) = 2 then Inl NotModelled
          else Inl ValueError)"

definition sparse_linalg_norm :: "container \<Rightarrow> norm_ord \<Rightarrow> py_error + real" where
  "sparse_linalg_norm v ord =
     (case ord of Fro \<Rightarrow> Inr (l2norm (entries v)) | Two \<Rightarrow> Inl NotImplementedError)"

text \<open>\<^verbatim>\<open>np.zeros(shape)\<close> and \<^verbatim>\<open>sparse.csr_matrix(shape)\<close>.\<close>

definition np_zeros :: "nat list \<Rightarrow> container" where
  "np_zeros sh = \<lparr>issparse = False, shape = sh, entries = replicate (prod_list sh) 0\<rparr>"

definition csr_matrix :: "nat list \<Rightarrow> container" where
  "csr_matrix sh = \<lparr>issparse = True, shape = sh, entries = replicate (prod_list sh) 0\<rparr>"

subsection \<open>The base operators of the 1-norm and the 2-norm\<close>

text \<open>
  \<^verbatim>\<open>
  def prox_norm1_base(v, t):
      if sparse.issparse(v):
          max_elemwise = lambda x, y: x.maximum(y)
      else:
          max_elemwise = np.maximum
      return max_elemwise(v - t, 0) - max_elemwise(-v - t, 0)
  \<close>
  Python evaluates \<^verbatim>\<open>v - t\<close> first, then \<^verbatim>\<open>-v - t\<close>, then the difference.
\<close>

definition prox_norm1_base :: "container \<Rightarrow> real \<Rightarrow> py_error + container" where
  "prox_norm1_base v t =
     (case sub_scalar v t of
        Inl e \<Rightarrow> Inl e
      | Inr p \<Rightarrow>
         (case sub_scalar (neg v) t of
            Inl e \<Rightarrow> Inl e
          | Inr q \<Rightarrow> sub_containers (max_elemwise p 0) (max_elemwise q 0)))"

text \<open>
  \<^verbatim>\<open>
  def prox_norm2_base(v, t):
      if sparse.issparse(v):
          norm = sparse.linalg.norm
          zeros = sparse.csr_matrix
      else:
          norm = np.linalg.norm
          zeros = np.zeros
      if len(v.shape) == 2:
          v_norm = norm(v,'fro')
      elif len(v.shape) == 1:
          v_norm = norm(v,2)
      if v_norm == 0:
          return zeros(v.shape)
      else:
          return np.maximum(1 - t*1.0/v_norm, 0) * v
  \<close>
  With neither one nor two dimensions no branch binds \<^verbatim>\<open>v_norm\<close>, and reading it
  raises \<^verbatim>\<open>UnboundLocalError\<close>.
\<close>

definition norm_of :: "container \<Rightarrow> norm_ord \<Rightarrow> py_error + real" where
  "norm_of v = (if issparse v then sparse_linalg_norm v else np_linalg_norm v)"

definition zeros_of :: "container \<Rightarrow> nat list \<Rightarrow> container" where
  "zeros_of v = (if issparse v then csr_matrix else np_zeros)"

definition prox_norm2_base :: "container \<Rightarrow> real \<Rightarrow> py_error + container" where
  "prox_norm2_base v t =
     (case (if length (shape v) = 2 then norm_of v Fro
            else if length (shape v) = 1 then norm_of v Two
            else Inl UnboundLocalError) of
        Inl e \<Rightarrow> Inl e
      | Inr v_norm \<Rightarrow>
          if v_norm = 0 then Inr (zeros_of v (shape v))
          else Inr (mul_scalar (max (1 - t * 1 / v_norm) 0) v))"

subsection \<open>The composition transform\<close>

text \<open>
  Modelled from the spec: \<^verbatim>\<open>prox_scale\<close> of \<^verbatim>\<open>a2dr/proximal/composition.py\<close>, which
  \<^verbatim>\<open>norm.py\<close> imports and the sources do not include. The spec (4.1) has it reject
  \<open>t \<le> 0\<close>, a zero scale and a negative quadratic term before any computation, then
  form \<open>v' = (v - t c) / (1 + 2 d)\<close> and \<open>s = 1 / (1 + 2 d)\<close>, call the base operator at
  the point \<open>a v' - b\<close> with the step \<open>t a\<^sup>2 s\<close>, map its result \<open>r\<close> back to
  \<open>(r + b) / a\<close> and rescale that by \<open>s\<close>; a failure of the base operator is passed on
  unchanged. The parameters are taken to be scalars, with the defaults
  \<open>a = 1\<close>, \<open>b = 0\<close>, \<open>c = 0\<close>, \<open>d = 0\<close>.
\<close>

record affine_params =
  scale :: real
  offset :: real
  lin_term :: real
  quad_term :: real

definition default_params :: affine_params where
  "default_params = \<lparr>scale = 1, offset = 0, lin_term = 0, quad_term = 0\<rparr>"

definition prox_scale ::
  "(container \<Rightarrow> real \<Rightarrow> py_error + container) \<Rightarrow> affine_params \<Rightarrow>
     container \<Rightarrow> real \<Rightarrow> py_error + container" where
  "prox_scale prox p v t =
     (let a = scale p; b = offset p; c = lin_term p; d = quad_term p in
      if t \<le> 0 \<or> a = 0 \<or> d < 0 then Inl ValidationFailure
      else
        let s = 1 / (1 + 2 * d) in
        case sub_scalar v (t * c) of
          Inl e \<Rightarrow> Inl e
        | Inr w \<Rightarrow>
        (case div_scalar w (1 + 2 * d) of
          Inl e \<Rightarrow> Inl e
        | Inr v' \<Rightarrow>
        (case sub_scalar (mul_scalar a v') b of
          Inl e \<Rightarrow> Inl e
        | Inr arg \<Rightarrow>
        (case prox arg (t * a\<^sup>2 * s) of
          Inl e \<Rightarrow> Inl e
        | Inr r \<Rightarrow>
        (case add_scalar r b of
          Inl e \<Rightarrow> Inl e
        | Inr rb \<Rightarrow>
        (case div_scalar rb a of
          Inl e \<Rightarrow> Inl e
        | Inr x \<Rightarrow> Inr (mul_scalar s x)))))))"

text \<open>
  \<^verbatim>\<open>
  def prox_norm1(v, t = 1, *args, **kwargs):
      return prox_scale(prox_norm1_base, *args, **kwargs)(v, t)
  def prox_norm2(v, t = 1, *args, **kwargs):
      return prox_scale(prox_norm2_base, *args, **kwargs)(v, t)
  \<close>
  The optional arguments are the parameter bundle \<open>p\<close>.
\<close>

definition prox_norm1 :: "container \<Rightarrow> real \<Rightarrow> affine_params \<Rightarrow> py_error + container" where
  "prox_norm1 v t p = prox_scale prox_norm1_base p v t"

definition prox_norm2 :: "container \<Rightarrow> real \<Rightarrow> affine_params \<Rightarrow> py_error + container" where
  "prox_norm2 v t p = prox_scale prox_norm2_base p v t"

subsection \<open>The base operator of the infinity norm\<close>

text \<open>
  \<^verbatim>\<open>
  def prox_norm_inf_base(v, t):
      # TODO: Sparse handling.
      return v - t * proj_l1(v/t)
  \<close>
  \<^verbatim>\<open>proj_l1\<close> is imported from \<^verbatim>\<open>a2dr/proximal/projection.py\<close>, which the sources
  do not include: it is a parameter of the model.
\<close>

definition prox_norm_inf_base ::
  "(container \<Rightarrow> py_error + container) \<Rightarrow> container \<Rightarrow> real \<Rightarrow> py_error + container" where
  "prox_norm_inf_base proj_l1 v t =
     (case div_scalar v t of
        Inl e \<Rightarrow> Inl e
      | Inr u \<Rightarrow>
         (case proj_l1 u of
            Inl e \<Rightarrow> Inl e
          | Inr p \<Rightarrow> sub_containers v (mul_scalar t p)))"

text \<open>
  What the operator is meant to compute, in the words of its docstring and of the identity
  it uses: the 1-norm and the infinity norm of a vector, the squared Euclidean distance,
  the Euclidean projection \<open>p\<close> of \<open>u\<close> onto the unit ball of the 1-norm (a point of the
  ball that is nearest to \<open>u\<close>), and the proximal operator of \<open>t\<close> times the infinity
  norm at \<open>v\<close> (a minimiser of \<open>t \<parallel>x\<parallel>\<^sub>\<infinity> + \<parallel>x - v\<parallel>\<^sup>2 / 2\<close>).
\<close>

definition l1norm :: "real list \<Rightarrow> real" where
  "l1norm xs = sum_list (map abs xs)"

definition linf_norm :: "real list \<Rightarrow> real" where
  "linf_norm xs = foldr (\<lambda>x m. max \<bar>x\<bar> m) xs 0"

definition sq_dist :: "real list \<Rightarrow> real list \<Rightarrow> real" where
  "sq_dist xs ys = sum_list (map2 (\<lambda>x y. (x - y)\<^sup>2) xs ys)"

definition is_proj_l1_ball :: "real list \<Rightarrow> real list \<Rightarrow> bool" where
  "is_proj_l1_ball u p \<longleftrightarrow>
     length p = length u \<and> l1norm p \<le> 1 \<and>
     (\<forall>y. length y = length u \<and> l1norm y \<le> 1 \<longrightarrow> sq_dist u p \<le> sq_dist u y)"

definition is_prox_norm_inf :: "real \<Rightarrow> real list \<Rightarrow> real list \<Rightarrow> bool" where
  "is_prox_norm_inf t v x \<longleftrightarrow>
     length x = length v \<and>
     (\<forall>z. length z = length v \<longrightarrow>
        t * linf_norm x + sq_dist x v / 2 \<le> t * linf_norm z + sq_dist z v / 2)"

subsection \<open>Matrices\<close>

text \<open>
  Entry \<open>(i, j)\<close> of a two-dimensional container, and its number of columns. The entries
  are read by index: a well-formed container has an entry at every index its shape allows.
\<close>

definition ncols :: "container \<Rightarrow> nat" where
  "ncols A = shape A ! 1"

definition entry :: "container \<Rightarrow> nat \<Rightarrow> nat \<Rightarrow> real" where
  "entry A i j = entries A ! (i * ncols A + j)"

text \<open>
  \<^verbatim>\<open>np.diag(s)\<close>: the square matrix with a one-dimensional \<open>s\<close> on its diagonal, or the
  diagonal of a two-dimensional \<open>s\<close>; \<^verbatim>\<open>ValueError\<close> for any other input.
\<close>

definition np_diag :: "container \<Rightarrow> py_error + container" where
  "np_diag s =
     (if issparse s then Inl ValueError
      else case shape s of
        [k] \<Rightarrow>
          Inr (ndarray [k, k]
            (concat (map (\<lambda>i. map (\<lambda>j. if i = j then entries s ! i else 0) [0..<k]) [0..<k])))
      | [m, n] \<Rightarrow> Inr (ndarray [min m n] (map (\<lambda>i. entries s ! (i * n + i)) [0..<min m n]))
      | _ \<Rightarrow> Inl ValueError)"

text \<open>
  \<^verbatim>\<open>A.dot(B)\<close> for two dense matrices: the matrix product, and \<^verbatim>\<open>ValueError\<close> when
  the inner dimensions differ. Other operands are not modelled.
\<close>

definition np_dot :: "container \<Rightarrow> container \<Rightarrow> py_error + container" where
  "np_dot A B =
     (if issparse A \<or> issparse B then Inl NotModelled
      else case (shape A, shape B) of
        ([m, k], [k', n]) \<Rightarrow>
          if k = k'
          then Inr (ndarray [m, n]
            (concat (map (\<lambda>i. map (\<lambda>j. sum_list (map (\<lambda>l. entry A i l * entry B l j) [0..<k]))
               [0..<n]) [0..<m])))
          else Inl ValueError
      | _ \<Rightarrow> Inl NotModelled)"

text \<open>
  \<^verbatim>\<open>np.linalg.svd(B, full_matrices=False)\<close>. numpy first turns \<open>B\<close> into an array; a
  scipy sparse matrix becomes a zero-dimensional array of objects, and an array of fewer
  than two dimensions is refused with \<^verbatim>\<open>LinAlgError\<close>. The factorisation itself is the
  parameter \<open>svd\<close>.
\<close>

definition np_linalg_svd ::
  "(container \<Rightarrow> py_error + container \<times> container \<times> container) \<Rightarrow> container \<Rightarrow>
     py_error + container \<times> container \<times> container" where
  "np_linalg_svd svd B =
     (if issparse B \<or> length (shape B) < 2 then Inl LinAlgError else svd B)"

subsection \<open>The base operator of the nuclear norm\<close>

text \<open>
  \<^verbatim>\<open>
  def prox_norm_nuc_base(B, t):
      U, s, Vt = np.linalg.svd(B, full_matrices=False)
      s_new = np.maximum(s - t, 0)
      return U.dot(np.diag(s_new)).dot(Vt)
  \<close>
\<close>

definition prox_norm_nuc_base ::
  "(container \<Rightarrow> py_error + container \<times> container \<times> container) \<Rightarrow> container \<Rightarrow> real \<Rightarrow>
     py_error + container" where
  "prox_norm_nuc_base svd B t =
     (case np_linalg_svd svd B of
        Inl e \<Rightarrow> Inl e
      | Inr (U, s, Vt) \<Rightarrow>
         (case sub_scalar s t of
            Inl e \<Rightarrow> Inl e
          | Inr st \<Rightarrow>
             (let s_new = max_elemwise st 0 in
              case np_diag s_new of
                Inl e \<Rightarrow> Inl e
              | Inr D \<Rightarrow>
                 (case np_dot U D of
                    Inl e \<Rightarrow> Inl e
                  | Inr UD \<Rightarrow> np_dot UD Vt))))"

text \<open>
  What \<^verbatim>\<open>np.linalg.svd\<close> promises of its result for an \<open>m\<close> by \<open>n\<close> matrix \<open>B\<close>, with
  \<open>k = min m n\<close>: \<open>U\<close> is \<open>m\<close> by \<open>k\<close> with orthonormal columns, \<open>Vt\<close> is \<open>k\<close> by \<open>n\<close> with
  orthonormal rows, the \<open>k\<close> singular values \<open>s\<close> are non-negative and in descending
  order, and \<open>B = U diag(s) Vt\<close>.
\<close>

definition is_svd :: "container \<Rightarrow> container \<Rightarrow> container \<Rightarrow> container \<Rightarrow> bool" where
  "is_svd B U s Vt \<longleftrightarrow>
     (case shape B of
        [m, n] \<Rightarrow>
          (let k = min m n in
           \<not> issparse B \<and> \<not> issparse U \<and> \<not> issparse s \<and> \<not> issparse Vt \<and>
           wf B \<and> wf U \<and> wf s \<and> wf Vt \<and>
           shape U = [m, k] \<and> shape s = [k] \<and> shape Vt = [k, n] \<and>
           list_all (\<lambda>i. list_all (\<lambda>j.
               sum_list (map (\<lambda>l. entry U l i * entry U l j) [0..<m]) = (if i = j then 1 else 0))
             [0..<k]) [0..<k] \<and>
           list_all (\<lambda>i. list_all (\<lambda>j.
               sum_list (map (\<lambda>l. entry Vt i l * entry Vt j l) [0..<n]) = (if i = j then 1 else 0))
             [0..<k]) [0..<k] \<and>
           list_all (\<lambda>x. 0 \<le> x) (entries s) \<and>
           sorted (rev (entries s)) \<and>
           list_all (\<lambda>i. list_all (\<lambda>j.
               entry B i j = sum_list (map (\<lambda>l. entry U i l * (entries s ! l) * entry Vt l j) [0..<k]))
             [0..<n]) [0..<m])
      | _ \<Rightarrow> False)"

subsection \<open>The base operator of the group lasso\<close>

text \<open>
  Column \<open>j\<close> of a matrix, as a container: a one-dimensional array for an
  \<^verbatim>\<open>ndarray\<close>, an \<open>m\<close> by 1 sparse matrix for a sparse matrix.
\<close>

definition column :: "container \<Rightarrow> nat \<Rightarrow> container" where
  "column B j =
     (let m = shape B ! 0; col = map (\<lambda>i. entry B i j) [0..<m] in
      if issparse B then spmatrix m 1 col else ndarray [m] col)"

text \<open>
  A container does not record the storage format of a sparse matrix. The one expression of
  \<^verbatim>\<open>norm.py\<close> that depends on it is \<^verbatim>\<open>B[:,j]\<close>: csr, csc, lil and dok matrices
  support indexing and return column \<open>j\<close>; coo, dia and bsr matrices are not
  subscriptable and raise \<^verbatim>\<open>TypeError\<close>. An \<^verbatim>\<open>ndarray\<close> has no storage format
  and always returns the column. The format of \<open>B\<close> is passed next to \<open>B\<close>.
\<close>

datatype sp_format = CSR | CSC | LIL | DOK | COO | DIA | BSR

fun subscriptable :: "sp_format \<Rightarrow> bool" where
  "subscriptable CSR = True"
| "subscriptable CSC = True"
| "subscriptable LIL = True"
| "subscriptable DOK = True"
| "subscriptable COO = False"
| "subscriptable DIA = False"
| "subscriptable BSR = False"

definition getcol :: "sp_format \<Rightarrow> container \<Rightarrow> nat \<Rightarrow> py_error + container" where
  "getcol fmt B j =
     (if issparse B \<and> \<not> subscriptable fmt then Inl TypeError else Inr (column B j))"

text \<open>A list comprehension whose element expression can raise: the first exception ends it.\<close>

fun collect :: "(py_error + 'a) list \<Rightarrow> py_error + 'a list" where
  "collect [] = Inr []"
| "collect (x # xs) =
     (case x of
        Inl e \<Rightarrow> Inl e
      | Inr y \<Rightarrow> (case collect xs of Inl e \<Rightarrow> Inl e | Inr ys \<Rightarrow> Inr (y # ys)))"

text \<open>
  \<^verbatim>\<open>np.vstack\<close> of a list of one-dimensional arrays: \<^verbatim>\<open>ValueError\<close> for the empty list
  ("need at least one array to concatenate") and for arrays of different lengths, else the
  matrix whose rows are the arrays. Other lists are not modelled.
\<close>

definition np_vstack :: "container list \<Rightarrow> py_error + container" where
  "np_vstack xs =
     (if xs = [] then Inl ValueError
      else if list_all (\<lambda>x. \<not> issparse x \<and> length (shape x) = 1) xs
      then (if list_all (\<lambda>x. shape x = shape (hd xs)) xs
            then Inr (ndarray [length xs, hd (shape (hd xs))] (concat (map entries xs)))
            else Inl ValueError)
      else Inl NotModelled)"

text \<open>\<^verbatim>\<open>A.T\<close> of an array of at most two dimensions.\<close>

definition np_T :: "container \<Rightarrow> py_error + container" where
  "np_T A =
     (case shape A of
        [r, c] \<Rightarrow>
          Inr (A\<lparr>shape := [c, r],
                 entries := concat (map (\<lambda>i. map (\<lambda>j. entry A j i) [0..<r]) [0..<c])\<rparr>)
      | [n] \<Rightarrow> Inr A
      | [] \<Rightarrow> Inr A
      | _ \<Rightarrow> Inl NotModelled)"

text \<open>
  \<^verbatim>\<open>sparse.hstack\<close> of a list of sparse matrices: \<^verbatim>\<open>ValueError\<close> for the empty list
  and for blocks with different numbers of rows, else the sparse matrix whose rows are the
  blocks' rows side by side. Other lists are not modelled.
\<close>

definition row_of :: "container \<Rightarrow> nat \<Rightarrow> real list" where
  "row_of A i = take (ncols A) (drop (i * ncols A) (entries A))"

definition sparse_hstack :: "container list \<Rightarrow> py_error + container" where
  "sparse_hstack xs =
     (if xs = [] then Inl ValueError
      else if list_all (\<lambda>x. issparse x \<and> length (shape x) = 2) xs
      then (let m = shape (hd xs) ! 0 in
            if list_all (\<lambda>x. shape x ! 0 = m) xs
            then Inr (spmatrix m (sum_list (map ncols xs))
                   (concat (map (\<lambda>i. concat (map (\<lambda>x. row_of x i) xs)) [0..<m])))
            else Inl ValueError)
      else Inl NotModelled)"

text \<open>
  \<^verbatim>\<open>
  def prox_group_lasso_base(B, t):
      # TODO: Sparse handling.
      if sparse.issparse(B):
          return sparse.hstack([prox_norm2(B[:,j], t) for j in range(B.shape[1])])
      else:
          return np.vstack([prox_norm2(B[:,j], t) for j in range(B.shape[1])]).T
  \<close>
  \<^verbatim>\<open>B.shape[1]\<close> raises \<^verbatim>\<open>IndexError\<close> for an array of fewer than two dimensions.
  The columns go through the public \<^verbatim>\<open>prox_norm2\<close> with its default parameters.
  \<open>fmt\<close> is the storage format of \<open>B\<close> when \<open>B\<close> is sparse.
\<close>

definition prox_group_lasso_base ::
  "sp_format \<Rightarrow> container \<Rightarrow> real \<Rightarrow> py_error + container" where
  "prox_group_lasso_base fmt B t =
     (case shape B of
        [m, n] \<Rightarrow>
          (case collect (map (\<lambda>j. case getcol fmt B j of
                                     Inl e \<Rightarrow> Inl e
                                   | Inr c \<Rightarrow> prox_norm2 c t default_params) [0..<n]) of
             Inl e \<Rightarrow> Inl e
           | Inr cols \<Rightarrow>
               if issparse B then sparse_hstack cols
               else (case np_vstack cols of Inl e \<Rightarrow> Inl e | Inr S \<Rightarrow> np_T S))
      | [] \<Rightarrow> Inl IndexError
      | [n] \<Rightarrow> Inl IndexError
      | _ \<Rightarrow> Inl NotModelled)"

subsection \<open>The remaining public operators\<close>

text \<open>
  \<^verbatim>\<open>
  def prox_norm_inf(v, t = 1, *args, **kwargs):
      return prox_scale(prox_norm_inf_base, *args, **kwargs)(v, t)
  def prox_norm_nuc(B, t = 1, *args, **kwargs):
      return prox_scale(prox_norm_nuc_base, *args, **kwargs)(B, t)
  def prox_group_lasso(B, t = 1, *args, **kwargs):
      return prox_scale(prox_group_lasso_base, *args, **kwargs)(B, t)
  \<close>
  The scalar operations of the composition transform keep the storage format of a sparse
  matrix, so the base operator of the group lasso is given the format of the input.
\<close>

definition prox_norm_inf ::
  "(container \<Rightarrow> py_error + container) \<Rightarrow> container \<Rightarrow> real \<Rightarrow> affine_params \<Rightarrow>
     py_error + container" where
  "prox_norm_inf proj_l1 v t p = prox_scale (prox_norm_inf_base proj_l1) p v t"

definition prox_norm_nuc ::
  "(container \<Rightarrow> py_error + container \<times> container \<times> container) \<Rightarrow> container \<Rightarrow> real \<Rightarrow>
     affine_params \<Rightarrow> py_error + container" where
  "prox_norm_nuc svd B t p = prox_scale (prox_norm_nuc_base svd) p B t"

definition prox_group_lasso ::
  "sp_format \<Rightarrow> container \<Rightarrow> real \<Rightarrow> affine_params \<Rightarrow> py_error + container" where
  "prox_group_lasso fmt B t p = prox_scale (prox_group_lasso_base fmt) p B t"

section \<open>Properties\<close>

subsection \<open>Lists and sums\<close>

lemma nth_concat_uniform:
  assumes "\<forall>xs\<in>set xss. length xs = r" and "i < length xss" and "k < r"
  shows "concat xss ! (i * r + k) = xss ! i ! k"
  using assms
proof (induction xss arbitrary: i)
  case Nil
  then show ?case by simp
next
  case (Cons x xss)
  show ?case
  proof (cases i)
    case 0
    then show ?thesis using Cons.prems by (simp add: nth_append)
  next
    case (Suc i')
    have "(x # xss) ! i ! k = concat xss ! (i' * r + k)"
      using Suc Cons.prems Cons.IH [of i'] by simp
    moreover have "concat (x # xss) ! (i * r + k) = concat xss ! (i' * r + k)"
      using Suc Cons.prems by (simp add: nth_append)
    ultimately show ?thesis by simp
  qed
qed

lemma length_concat_uniform:
  assumes "\<forall>xs\<in>set xss. length xs = r"
  shows "length (concat xss) = length xss * r"
  using assms by (induction xss) simp_all

lemma nth_concat_map_upt:
  assumes "\<forall>i<c. length (f i) = r" and "i < c" and "k < r"
  shows "concat (map f [0..<c]) ! (i * r + k) = f i ! k"
  using nth_concat_uniform [of "map f [0..<c]" r i k] assms by simp

lemma length_concat_map_upt:
  assumes "\<forall>i<c. length (f i) = r"
  shows "length (concat (map f [0..<c])) = c * r"
  using length_concat_uniform [of "map f [0..<c]" r] assms by simp

lemma take1_drop:
  assumes "i < length xs"
  shows "take (Suc 0) (drop i xs) = [xs ! i]"
  using assms by (simp add: take_Suc_conv_app_nth)

lemma concat_map_singleton: "concat (map (\<lambda>x. [f x]) xs) = map f xs"
  by (induction xs) simp_all

lemma sum_list_map_const1:
  assumes "\<forall>x\<in>set xs. f x = (1::nat)"
  shows "sum_list (map f xs) = length xs"
  using assms by (induction xs) simp_all

lemma sum_list_diag:
  fixes f :: "nat \<Rightarrow> real"
  assumes "j < k"
  shows "sum_list (map (\<lambda>l. f l * (if l = j then d l else 0)) [0..<k]) = f j * d j"
proof -
  have "sum_list (map (\<lambda>l. f l * (if l = j then d l else 0)) [0..<k])
      = (\<Sum>l = 0..<k. if l = j then f l * d l else 0)"
    by (simp add: interv_sum_list_conv_sum_set_nat if_distrib cong: if_cong)
  also have "\<dots> = f j * d j"
    using assms by simp
  finally show ?thesis .
qed

lemma sorted_rev_map_mono:
  fixes xs :: "real list"
  assumes "sorted (rev xs)" and "mono f"
  shows "sorted (rev (map f xs))"
proof -
  have "sorted (map f (rev xs))"
    using assms by (simp add: sorted_map sorted_wrt_mono_rel [of "rev xs" "(\<le>)"] monoD)
  then show ?thesis by (simp add: rev_map)
qed

lemma replicate_2: "replicate 2 x = [x, x]"
  by (simp add: numeral_2_eq_2)

lemma collect_map_Inr:
  assumes "\<forall>x\<in>set xs. f x = Inr (g x)"
  shows "collect (map f xs) = Inr (map g xs)"
  using assms by (induction xs) simp_all

subsection \<open>The Euclidean norm\<close>

lemma l2norm_nonneg: "0 \<le> l2norm xs"
  by (auto simp: l2norm_def intro!: sum_list_nonneg)

lemma l2norm_scale: "l2norm (map (\<lambda>y. c * y) xs) = \<bar>c\<bar> * l2norm xs"
proof -
  have "sum_list (map (\<lambda>x. x\<^sup>2) (map (\<lambda>y. c * y) xs)) = c\<^sup>2 * sum_list (map (\<lambda>x. x\<^sup>2) xs)"
    by (induction xs) (simp_all add: power_mult_distrib algebra_simps)
  then show ?thesis
    by (simp add: l2norm_def real_sqrt_mult)
qed

lemma sqrt_25: "sqrt 25 = 5"
  using real_sqrt_abs [of 5] by simp

lemma l2norm_3_4: "l2norm [3, 4] = 5"
  by (simp add: l2norm_def sqrt_25)

subsection \<open>The composition transform with the default parameters\<close>

lemma prox_scale_default:
  assumes "0 < t"
  shows "prox_scale prox default_params v t = prox v t"
  using assms
  by (simp add: prox_scale_def default_params_def sub_scalar_def add_scalar_def
      div_scalar_def mul_scalar_def map_entries_def split: sum.splits)

subsection \<open>Soft-thresholding\<close>

lemma soft_threshold_scalar:
  fixes x t :: real
  assumes "0 \<le> t"
  shows "max (x - t) 0 - max (- x - t) 0 = sgn x * max (\<bar>x\<bar> - t) 0"
  using assms by (cases "0 \<le> x") (auto simp: max_def sgn_real_def)

lemma prox_norm1_base_dense_raw:
  assumes "\<not> issparse v"
  shows "prox_norm1_base v t =
     Inr \<lparr>issparse = False, shape = shape v,
          entries = map (\<lambda>x. max (x - t) 0 - max (- x - t) 0) (entries v)\<rparr>"
  using assms
  by (simp add: prox_norm1_base_def sub_scalar_def neg_def max_elemwise_def
      sub_containers_def map_entries_def map2_map_map o_def)

text \<open>
  On an array \<^verbatim>\<open>prox_norm1_base\<close> is soft-thresholding, coordinate by coordinate, and
  the public operator with its defaults gives \<open>[2, 0, 0]\<close> for \<open>[3, -1, 0.5]\<close> and
  \<open>t = 1\<close>.
\<close>

lemma prox_norm1_base_dense:
  assumes "\<not> issparse v" and "0 \<le> t"
  shows "prox_norm1_base v t =
     Inr \<lparr>issparse = False, shape = shape v,
          entries = map (\<lambda>x. sgn x * max (\<bar>x\<bar> - t) 0) (entries v)\<rparr>"
  using assms by (simp add: prox_norm1_base_dense_raw soft_threshold_scalar)

lemma prox_norm1_example:
  "prox_norm1 (ndarray [3] [3, - 1, 0.5]) 1 default_params = Inr (ndarray [3] [2, 0, 0])"
  by (simp add: prox_norm1_def prox_scale_default prox_norm1_base_dense ndarray_def)

text \<open>
  C1: \<^verbatim>\<open>prox_norm1_base\<close> is elementwise soft-thresholding for every dense or sparse
  input and every \<open>t > 0\<close>. The code does this for arrays (\<open>prox_norm1_base_dense\<close>
  above) and not for sparse matrices: the sparse matrix with the row \<open>[3, -1, 0.5]\<close> and
  \<open>t = 1\<close> gives no \<open>[2, 0, 0]\<close>, the subtraction \<^verbatim>\<open>v - t\<close> raises
  \<^verbatim>\<open>NotImplementedError\<close>.
\<close>

theorem prox_norm1_base_sparse_input:
  "prox_norm1_base (spmatrix 1 3 [3, - 1, 0.5]) 1 = Inl NotImplementedError"
  by (simp add: prox_norm1_base_def sub_scalar_def spmatrix_def)

subsection \<open>Shrinkage by the 2-norm\<close>

lemma norm_of_wf:
  assumes "wf v" and "length (shape v) = 1 \<or> length (shape v) = 2"
  shows "(if length (shape v) = 2 then norm_of v Fro
            else if length (shape v) = 1 then norm_of v Two
            else Inl UnboundLocalError) = Inr (l2norm (entries v))"
  using assms
  by (auto simp: wf_def norm_of_def sparse_linalg_norm_def np_linalg_norm_def)

lemma zeros_of_eq:
  "zeros_of v sh = \<lparr>issparse = issparse v, shape = sh, entries = replicate (prod_list sh) 0\<rparr>"
  by (simp add: zeros_of_def csr_matrix_def np_zeros_def)

lemma mul_scalar_zero:
  assumes "wf v"
  shows "mul_scalar 0 v = zeros_of v (shape v)"
  using assms
  by (simp add: mul_scalar_def map_entries_def zeros_of_eq wf_def map_replicate_const)

lemma prox_norm2_base_returns:
  assumes "wf v" and "length (shape v) = 1 \<or> length (shape v) = 2"
  shows "\<exists>r. prox_norm2_base v t = Inr r \<and> issparse r = issparse v \<and> shape r = shape v \<and>
             length (entries r) = length (entries v)"
  using norm_of_wf [OF assms] assms(1)
  by (simp add: prox_norm2_base_def zeros_of_eq mul_scalar_def map_entries_def wf_def)

lemma prox_norm2_base_nonpositive:
  assumes "t \<le> 0" and "wf v" and "length (shape v) = 1 \<or> length (shape v) = 2"
  shows "prox_norm2_base v t =
     Inr (if l2norm (entries v) = 0 then zeros_of v (shape v)
          else mul_scalar (1 - t / l2norm (entries v)) v)"
proof (cases "l2norm (entries v) = 0")
  case True
  then show ?thesis
    using norm_of_wf [OF assms(2,3)] by (simp add: prox_norm2_base_def)
next
  case False
  then have "0 < l2norm (entries v)"
    using l2norm_nonneg [of "entries v"] by simp
  with assms(1) have "t / l2norm (entries v) \<le> 0"
    by (simp add: divide_le_0_iff)
  then have "max (1 - t * 1 / l2norm (entries v)) 0 = 1 - t / l2norm (entries v)"
    by simp
  then show ?thesis
    using False norm_of_wf [OF assms(2,3)] by (simp add: prox_norm2_base_def)
qed

text \<open>
  C2: for a one- or two-dimensional \<open>v\<close> and \<open>t > 0\<close>, \<^verbatim>\<open>prox_norm2_base\<close> returns
  the zero container of the shape and representation of \<open>v\<close> when the norm of \<open>v\<close> is at
  most \<open>t\<close>, and \<open>(1 - t / \<parallel>v\<parallel>) v\<close>, a positive multiple of \<open>v\<close> of norm
  \<open>\<parallel>v\<parallel> - t\<close>, when the norm exceeds \<open>t\<close>; \<^verbatim>\<open>prox_norm2\<close> of \<open>[3, 4]\<close> with \<open>t = 2\<close>
  and the default parameters is \<open>[1.8, 2.4]\<close>.
\<close>

theorem prox_norm2_base_shrinkage:
  assumes "0 < t" and "wf v" and "length (shape v) = 1 \<or> length (shape v) = 2"
  shows "(l2norm (entries v) \<le> t \<longrightarrow>
            prox_norm2_base v t =
              Inr \<lparr>issparse = issparse v, shape = shape v,
                   entries = replicate (prod_list (shape v)) 0\<rparr>) \<and>
         (t < l2norm (entries v) \<longrightarrow>
            (\<exists>r. prox_norm2_base v t = Inr r \<and>
                 r = mul_scalar (1 - t / l2norm (entries v)) v \<and>
                 0 < 1 - t / l2norm (entries v) \<and>
                 l2norm (entries r) = l2norm (entries v) - t)) \<and>
         prox_norm2 (ndarray [2] [3, 4]) 2 default_params = Inr (ndarray [2] [1.8, 2.4])"
proof (intro conjI impI)
  let ?n = "l2norm (entries v)"
  note N = norm_of_wf [OF assms(2,3)]
  {
    assume le: "?n \<le> t"
    show "prox_norm2_base v t =
              Inr \<lparr>issparse = issparse v, shape = shape v,
                   entries = replicate (prod_list (shape v)) 0\<rparr>"
    proof (cases "?n = 0")
      case True
      then show ?thesis using N by (simp add: prox_norm2_base_def zeros_of_eq)
    next
      case False
      then have pos: "0 < ?n" using l2norm_nonneg [of "entries v"] by simp
      with le have "1 \<le> t / ?n" by (simp add: pos_le_divide_eq)
      then have "max (1 - t * 1 / ?n) 0 = 0" by simp
      then show ?thesis using N False mul_scalar_zero [OF assms(2)]
        by (simp add: prox_norm2_base_def zeros_of_eq)
    qed
  }
  {
    assume gt: "t < ?n"
    then have pos: "0 < ?n" using assms(1) by simp
    with gt have lt1: "t / ?n < 1" by (simp add: pos_divide_less_eq)
    then have m: "max (1 - t * 1 / ?n) 0 = 1 - t / ?n" by simp
    have "l2norm (entries (mul_scalar (1 - t / ?n) v)) = \<bar>1 - t / ?n\<bar> * ?n"
      by (simp add: mul_scalar_def map_entries_def l2norm_scale)
    also have "\<dots> = (1 - t / ?n) * ?n" using lt1 by simp
    also have "\<dots> = ?n - t" using pos by (simp add: field_simps)
    finally have nr: "l2norm (entries (mul_scalar (1 - t / ?n) v)) = ?n - t" .
    show "\<exists>r. prox_norm2_base v t = Inr r \<and>
                 r = mul_scalar (1 - t / l2norm (entries v)) v \<and>
                 0 < 1 - t / l2norm (entries v) \<and>
                 l2norm (entries r) = l2norm (entries v) - t"
      using N pos m nr lt1 by (simp add: prox_norm2_base_def)
  }
  show "prox_norm2 (ndarray [2] [3, 4]) 2 default_params = Inr (ndarray [2] [1.8, 2.4])"
    by (simp add: prox_norm2_def prox_scale_default prox_norm2_base_def ndarray_def
        norm_of_def np_linalg_norm_def l2norm_3_4 mul_scalar_def map_entries_def)
qed

theorem prox_norm2_base_shrinkage_witness:
  "(0::real) < 2 \<and> wf (ndarray [2] [3, 4]) \<and> length (shape (ndarray [2] [3, 4])) = 1 \<and>
   2 < l2norm (entries (ndarray [2] [3, 4])) \<and>
   prox_norm2_base (ndarray [2] [3, 4]) 2 = Inr (ndarray [2] [9 / 5, 12 / 5]) \<and>
   l2norm [9 / 5, 12 / 5] = 3 \<and>
   l2norm (entries (spmatrix 1 2 [3, 4])) \<le> 7 \<and> wf (spmatrix 1 2 [3, 4]) \<and>
   prox_norm2_base (spmatrix 1 2 [3, 4]) 7 = Inr (spmatrix 1 2 [0, 0])"
  using prox_norm2_base_shrinkage [of 2 "ndarray [2] [3, 4]"]
    prox_norm2_base_shrinkage [of 7 "spmatrix 1 2 [3, 4]"]
  by (simp add: ndarray_def spmatrix_def wf_def l2norm_3_4 mul_scalar_def map_entries_def
      replicate_2)

subsection \<open>The infinity norm\<close>

lemma sum_list_map2_nth:
  assumes "length xs = n" and "length ys = n"
  shows "sum_list (map2 f xs ys) = (\<Sum>i<n. f (xs ! i) (ys ! i))"
proof -
  have "map2 f xs ys = map (\<lambda>i. f (xs ! i) (ys ! i)) [0..<n]"
    using assms by (intro nth_equalityI) simp_all
  then show ?thesis
    by (simp add: interv_sum_list_conv_sum_set_nat atLeast0LessThan)
qed

lemma sum_list_map_nth:
  assumes "length xs = n"
  shows "sum_list (map f xs) = (\<Sum>i<n. f (xs ! i))"
proof -
  have "map f xs = map (\<lambda>i. f (xs ! i)) [0..<n]"
    using assms by (intro nth_equalityI) simp_all
  then show ?thesis
    by (simp add: interv_sum_list_conv_sum_set_nat atLeast0LessThan)
qed

lemma sum_list_map_upt:
  "sum_list (map f [0..<n]) = (\<Sum>i<n. f i)"
  by (simp add: interv_sum_list_conv_sum_set_nat atLeast0LessThan)

lemma linf_norm_ge:
  assumes "x \<in> set xs"
  shows "\<bar>x\<bar> \<le> linf_norm xs"
  using assms by (induction xs) (auto simp: linf_norm_def)

lemma linf_norm_nonneg: "0 \<le> linf_norm xs"
  by (induction xs) (auto simp: linf_norm_def)

lemma linf_norm_attained:
  assumes "xs \<noteq> []"
  shows "\<exists>x\<in>set xs. \<bar>x\<bar> = linf_norm xs"
  using assms
proof (induction xs)
  case Nil
  then show ?case by simp
next
  case (Cons x xs)
  show ?case
  proof (cases "xs = []")
    case True
    then show ?thesis by (simp add: linf_norm_def)
  next
    case False
    with Cons.IH obtain y where "y \<in> set xs" "\<bar>y\<bar> = linf_norm xs" by auto
    then show ?thesis
      by (cases "linf_norm xs \<le> \<bar>x\<bar>") (auto simp: linf_norm_def max_def)
  qed
qed

lemma holder_l1_linf:
  assumes "length z = n" and "length p = n"
  shows "(\<Sum>i<n. z ! i * p ! i) \<le> linf_norm z * l1norm p"
proof -
  have "(\<Sum>i<n. z ! i * p ! i) \<le> (\<Sum>i<n. linf_norm z * \<bar>p ! i\<bar>)"
  proof (rule sum_mono)
    fix i assume "i \<in> {..<n}"
    then have "\<bar>z ! i\<bar> \<le> linf_norm z"
      using assms by (simp add: linf_norm_ge)
    then have "\<bar>z ! i\<bar> * \<bar>p ! i\<bar> \<le> linf_norm z * \<bar>p ! i\<bar>"
      by (simp add: mult_right_mono)
    moreover have "z ! i * p ! i \<le> \<bar>z ! i\<bar> * \<bar>p ! i\<bar>"
      by (metis abs_ge_self abs_mult)
    ultimately show "z ! i * p ! i \<le> linf_norm z * \<bar>p ! i\<bar>" by simp
  qed
  also have "\<dots> = linf_norm z * l1norm p"
    using assms by (simp add: l1norm_def sum_list_map_nth [of p n] sum_distrib_left)
  finally show ?thesis .
qed

text \<open>The variational inequality of the projection.\<close>

lemma proj_variational:
  assumes proj: "is_proj_l1_ball u p" and len: "length y = length u" and ball: "l1norm y \<le> 1"
  shows "(\<Sum>i<length u. (u ! i - p ! i) * (y ! i - p ! i)) \<le> 0"
proof -
  define n where "n = length u"
  have lp: "length p = n" and l1p: "l1norm p \<le> 1"
    and best: "\<And>y. length y = n \<Longrightarrow> l1norm y \<le> 1 \<Longrightarrow> sq_dist u p \<le> sq_dist u y"
    using proj by (simp_all add: is_proj_l1_ball_def n_def)
  have ly: "length y = n" using len by (simp add: n_def)
  define a where "a = (\<Sum>i<n. (u ! i - p ! i) * (y ! i - p ! i))"
  define b where "b = (\<Sum>i<n. (y ! i - p ! i)\<^sup>2)"
  have step: "2 * l * a \<le> l\<^sup>2 * b" if l: "0 < l" "l \<le> 1" for l
  proof -
    define q where "q = map (\<lambda>i. p ! i + l * (y ! i - p ! i)) [0..<n]"
    have lq: "length q = n" by (simp add: q_def)
    have "l1norm q = (\<Sum>i<n. \<bar>p ! i + l * (y ! i - p ! i)\<bar>)"
      by (simp add: l1norm_def q_def o_def sum_list_map_upt)
    also have "\<dots> \<le> (\<Sum>i<n. (1 - l) * \<bar>p ! i\<bar> + l * \<bar>y ! i\<bar>)"
    proof (rule sum_mono)
      fix i
      have "p ! i + l * (y ! i - p ! i) = (1 - l) * p ! i + l * y ! i"
        by (simp add: algebra_simps)
      also have "\<bar>\<dots>\<bar> \<le> \<bar>(1 - l) * p ! i\<bar> + \<bar>l * y ! i\<bar>"
        by (rule abs_triangle_ineq)
      also have "\<dots> = (1 - l) * \<bar>p ! i\<bar> + l * \<bar>y ! i\<bar>"
        using l by (simp add: abs_mult)
      finally show "\<bar>p ! i + l * (y ! i - p ! i)\<bar> \<le> (1 - l) * \<bar>p ! i\<bar> + l * \<bar>y ! i\<bar>" .
    qed
    also have "\<dots> = (1 - l) * l1norm p + l * l1norm y"
      using lp ly
      by (simp add: l1norm_def sum_list_map_nth [of _ n] sum.distrib sum_distrib_left)
    also have "\<dots> \<le> (1 - l) * 1 + l * 1"
      using l l1p ball by (intro add_mono mult_left_mono) simp_all
    finally have "l1norm q \<le> 1" by simp
    from best [OF lq this]
    have "(\<Sum>i<n. (u ! i - p ! i)\<^sup>2) \<le> (\<Sum>i<n. (u ! i - q ! i)\<^sup>2)"
      using lp lq by (simp add: sq_dist_def sum_list_map2_nth [of u n] n_def)
    also have "(\<Sum>i<n. (u ! i - q ! i)\<^sup>2)
        = (\<Sum>i<n. (u ! i - p ! i)\<^sup>2 - 2 * l * ((u ! i - p ! i) * (y ! i - p ! i))
             + l\<^sup>2 * (y ! i - p ! i)\<^sup>2)"
      by (rule sum.cong) (simp_all add: q_def power2_eq_square algebra_simps)
    also have "\<dots> = (\<Sum>i<n. (u ! i - p ! i)\<^sup>2) - 2 * l * a + l\<^sup>2 * b"
      by (simp add: a_def b_def sum.distrib sum_subtractf sum_distrib_left)
    finally show ?thesis by simp
  qed
  have "a \<le> 0"
  proof (rule ccontr)
    assume "\<not> a \<le> 0"
    then have apos: "0 < a" by simp
    from step [of 1] have "2 * a \<le> b" by simp
    with apos have bpos: "0 < b" and le: "a / b \<le> 1" by simp_all
    from step [of "a / b"] apos bpos le have "2 * (a / b) * a \<le> (a / b)\<^sup>2 * b" by simp
    also have "(a / b)\<^sup>2 * b = (a / b) * a"
      using bpos by (simp add: power2_eq_square)
    finally have "(a / b) * a \<le> 0" by simp
    moreover have "0 < (a / b) * a" using apos bpos by simp
    ultimately show False by simp
  qed
  then show ?thesis by (simp add: a_def n_def)
qed

lemma moreau_linf:
  assumes t: "0 < t" and proj: "is_proj_l1_ball (map (\<lambda>y. y / t) v) p"
  shows "is_prox_norm_inf t v (map2 (\<lambda>x y. x - t * y) v p)"
proof -
  define n where "n = length v"
  define u where "u = map (\<lambda>y. y / t) v"
  define x where "x = map2 (\<lambda>x y. x - t * y) v p"
  have lu: "length u = n" by (simp add: u_def n_def)
  have lp: "length p = n" and l1p: "l1norm p \<le> 1"
    using proj by (simp_all add: is_proj_l1_ball_def n_def)
  have lx: "length x = n" using lp by (simp add: x_def n_def)
  have ui: "u ! i = v ! i / t" if "i < n" for i
    using that by (simp add: u_def n_def)
  have xi: "x ! i = v ! i - t * p ! i" if "i < n" for i
    using that lp by (simp add: x_def n_def)
  have xw: "x ! i = t * (u ! i - p ! i)" if "i < n" for i
    using that t by (simp add: xi ui algebra_simps)
  define c where "c = (\<Sum>i<n. x ! i * p ! i)"
  have vi: "(\<Sum>i<n. x ! i * (y ! i - p ! i)) \<le> 0" if "length y = n" "l1norm y \<le> 1" for y
  proof -
    have "(\<Sum>i<n. x ! i * (y ! i - p ! i)) = t * (\<Sum>i<n. (u ! i - p ! i) * (y ! i - p ! i))"
      by (simp add: sum_distrib_left xw algebra_simps)
    moreover have "(\<Sum>i<n. (u ! i - p ! i) * (y ! i - p ! i)) \<le> 0"
      using proj_variational [of u p y] proj that lu by (simp add: u_def)
    ultimately show ?thesis using t by (simp add: mult_le_0_iff)
  qed
  have c_le: "c \<le> linf_norm x"
  proof -
    have "c \<le> linf_norm x * l1norm p"
      unfolding c_def using lx lp by (rule holder_l1_linf)
    also have "\<dots> \<le> linf_norm x * 1"
      using l1p linf_norm_nonneg [of x] by (intro mult_left_mono) simp_all
    finally show ?thesis by simp
  qed
  have c_ge: "linf_norm x \<le> c"
  proof (cases "n = 0")
    case True
    then show ?thesis using lx by (simp add: c_def linf_norm_def)
  next
    case False
    then have "x \<noteq> []" using lx by auto
    from linf_norm_attained [OF this] obtain k where k: "k < n" "\<bar>x ! k\<bar> = linf_norm x"
      using lx by (auto simp: in_set_conv_nth)
    define y where "y = map (\<lambda>i. if i = k then sgn (x ! k) else 0) [0..<n]"
    have ly: "length y = n" by (simp add: y_def)
    have "l1norm y = (\<Sum>i<n. if i = k then \<bar>sgn (x ! k)\<bar> else 0)"
      by (simp add: l1norm_def y_def o_def sum_list_map_upt if_distrib cong: if_cong)
    also have "\<dots> = \<bar>sgn (x ! k)\<bar>" using k by simp
    also have "\<dots> \<le> 1" by (simp add: sgn_real_def)
    finally have l1y: "l1norm y \<le> 1" .
    have "(\<Sum>i<n. x ! i * y ! i) = (\<Sum>i<n. if i = k then x ! k * sgn (x ! k) else 0)"
      by (rule sum.cong) (simp_all add: y_def)
    also have "\<dots> = x ! k * sgn (x ! k)" using k(1) by simp
    also have "\<dots> = \<bar>x ! k\<bar>" by (simp add: sgn_real_def)
    finally have xy: "(\<Sum>i<n. x ! i * y ! i) = linf_norm x" using k by simp
    have "(\<Sum>i<n. x ! i * (y ! i - p ! i)) = (\<Sum>i<n. x ! i * y ! i) - c"
      by (simp add: c_def sum_subtractf algebra_simps)
    with vi [OF ly l1y] xy show ?thesis by simp
  qed
  have c_eq: "linf_norm x = c" using c_le c_ge by simp
  have "t * linf_norm x + sq_dist x v / 2 \<le> t * linf_norm z + sq_dist z v / 2"
    if lz: "length z = n" for z
  proof -
    have dx: "sq_dist x v = (\<Sum>i<n. t\<^sup>2 * (p ! i)\<^sup>2)"
    proof -
      have "sq_dist x v = (\<Sum>i<n. (x ! i - v ! i)\<^sup>2)"
        using lx by (simp add: sq_dist_def sum_list_map2_nth [of x n] n_def)
      also have "\<dots> = (\<Sum>i<n. t\<^sup>2 * (p ! i)\<^sup>2)"
        by (rule sum.cong) (simp_all add: xi power2_eq_square algebra_simps)
      finally show ?thesis .
    qed
    have dz: "sq_dist z v = (\<Sum>i<n. (z ! i - x ! i)\<^sup>2) - 2 * t * (\<Sum>i<n. z ! i * p ! i)
        + 2 * t * c + (\<Sum>i<n. t\<^sup>2 * (p ! i)\<^sup>2)"
    proof -
      have "sq_dist z v = (\<Sum>i<n. (z ! i - v ! i)\<^sup>2)"
        using lz by (simp add: sq_dist_def sum_list_map2_nth [of z n] n_def)
      also have "\<dots> = (\<Sum>i<n. (z ! i - x ! i)\<^sup>2 - 2 * t * (z ! i * p ! i)
          + 2 * t * (x ! i * p ! i) + t\<^sup>2 * (p ! i)\<^sup>2)"
        by (rule sum.cong) (simp_all add: xi power2_eq_square algebra_simps)
      also have "\<dots> = (\<Sum>i<n. (z ! i - x ! i)\<^sup>2) - 2 * t * (\<Sum>i<n. z ! i * p ! i)
          + 2 * t * c + (\<Sum>i<n. t\<^sup>2 * (p ! i)\<^sup>2)"
        by (simp add: c_def sum.distrib sum_subtractf sum_distrib_left)
      finally show ?thesis .
    qed
    have "(\<Sum>i<n. z ! i * p ! i) \<le> linf_norm z * l1norm p"
      using lz lp by (rule holder_l1_linf)
    also have "\<dots> \<le> linf_norm z * 1"
      using l1p linf_norm_nonneg [of z] by (intro mult_left_mono) simp_all
    finally have hz: "(\<Sum>i<n. z ! i * p ! i) \<le> linf_norm z" by simp
    have sq: "0 \<le> (\<Sum>i<n. (z ! i - x ! i)\<^sup>2)"
      by (rule sum_nonneg) simp
    have "t * (\<Sum>i<n. z ! i * p ! i) \<le> t * linf_norm z"
      using hz t by simp
    then show ?thesis
      using sq by (simp add: dx dz c_eq add_divide_distrib diff_divide_distrib)
  qed
  then show ?thesis
    using lx by (simp add: is_prox_norm_inf_def x_def [symmetric] n_def)
qed

lemma prox_norm_inf_base_value:
  assumes "t \<noteq> 0" and "proj_l1 (map_entries (\<lambda>y. y / t) v) = Inr p" and "shape p = shape v"
  shows "prox_norm_inf_base proj_l1 v t =
           Inr \<lparr>issparse = issparse v \<and> issparse p, shape = shape v,
                entries = map2 (\<lambda>x y. x - t * y) (entries v) (entries p)\<rparr>"
  using assms
  by (simp add: prox_norm_inf_base_def div_scalar_def sub_containers_def mul_scalar_def
      map_entries_def zip_map2 o_def split_def)

text \<open>
  C3: for \<open>t > 0\<close>, \<^verbatim>\<open>prox_norm_inf_base\<close> returns \<open>v - t p\<close>, coordinate by
  coordinate, where \<open>p\<close> is what the projection routine \<^verbatim>\<open>proj_l1\<close> returns for
  \<open>v / t\<close> (a container of the shape of \<open>v\<close>); and when \<open>p\<close> is the Euclidean projection
  of \<open>v / t\<close> onto the unit ball of the 1-norm, that result is the proximal operator of
  \<open>t\<close> times the infinity norm at \<open>v\<close>.
\<close>

theorem prox_norm_inf_base_formula:
  assumes "0 < t" and "proj_l1 (map_entries (\<lambda>y. y / t) v) = Inr p" and "shape p = shape v"
  shows "prox_norm_inf_base proj_l1 v t =
           Inr \<lparr>issparse = issparse v \<and> issparse p, shape = shape v,
                entries = map2 (\<lambda>x y. x - t * y) (entries v) (entries p)\<rparr> \<and>
         (is_proj_l1_ball (map (\<lambda>y. y / t) (entries v)) (entries p) \<longrightarrow>
            is_prox_norm_inf t (entries v) (map2 (\<lambda>x y. x - t * y) (entries v) (entries p)))"
proof (intro conjI impI)
  show "prox_norm_inf_base proj_l1 v t =
           Inr \<lparr>issparse = issparse v \<and> issparse p, shape = shape v,
                entries = map2 (\<lambda>x y. x - t * y) (entries v) (entries p)\<rparr>"
    using assms by (simp add: prox_norm_inf_base_value)
next
  assume "is_proj_l1_ball (map (\<lambda>y. y / t) (entries v)) (entries p)"
  with assms(1) show "is_prox_norm_inf t (entries v)
      (map2 (\<lambda>x y. x - t * y) (entries v) (entries p))"
    by (rule moreau_linf)
qed

lemma proj_l1_ball_example: "is_proj_l1_ball [2, 0] [1, 0]"
proof -
  have "sq_dist [2, 0] [1, 0] \<le> sq_dist [2, 0] y" if "length y = 2" "l1norm y \<le> 1" for y
  proof -
    from that(1) obtain a b where y: "y = [a, b]"
      by (auto simp: numeral_2_eq_2 length_Suc_conv)
    with that(2) have "1 \<le> 2 - a" by (simp add: l1norm_def)
    then have "1 * 1 \<le> (2 - a) * (2 - a)" by (intro mult_mono) simp_all
    then have "1 \<le> (2 - a)\<^sup>2" by (simp add: power2_eq_square)
    then have "1 + 0 \<le> (2 - a)\<^sup>2 + b\<^sup>2" by (intro add_mono) simp_all
    then show ?thesis by (simp add: sq_dist_def y)
  qed
  then show ?thesis by (simp add: is_proj_l1_ball_def l1norm_def)
qed

theorem prox_norm_inf_base_formula_witness:
  "(0::real) < 2 \<and> is_proj_l1_ball [2, 0] [1, 0] \<and>
   prox_norm_inf_base (\<lambda>u. Inr (ndarray [2] [1, 0])) (ndarray [2] [4, 0]) 2
     = Inr (ndarray [2] [2, 0]) \<and>
   is_prox_norm_inf 2 [4, 0] [2, 0]"
  using prox_norm_inf_base_formula [of 2 "\<lambda>u. Inr (ndarray [2] [1, 0])" "ndarray [2] [4, 0]"
      "ndarray [2] [1, 0]"] proj_l1_ball_example
  by (simp add: ndarray_def)

subsection \<open>The nuclear norm\<close>

lemma entry_ndarray_table:
  assumes "i < m" and "j < n"
  shows "entry (ndarray [m, n] (concat (map (\<lambda>i. map (f i) [0..<n]) [0..<m]))) i j = f i j"
  using assms nth_concat_map_upt [of m "\<lambda>i. map (f i) [0..<n]" n i j]
  by (simp add: entry_def ncols_def ndarray_def)

lemma wf_ndarray_table:
  "wf (ndarray [m, n] (concat (map (\<lambda>i. map (f i) [0..<n]) [0..<m])))"
  using length_concat_map_upt [of m "\<lambda>i. map (f i) [0..<n]" n]
  by (simp add: wf_def ndarray_def)

lemma is_svd_shape:
  assumes "is_svd B U s Vt"
  obtains m n where "shape B = [m, n]"
  using assms by (auto simp: is_svd_def split: list.splits)

lemma nuc_shrinkage:
  assumes svd: "svd B = Inr (U, s, Vt)" and fac: "is_svd B U s Vt"
  shows "\<exists>R. prox_norm_nuc_base svd B t = Inr R \<and> \<not> issparse R \<and> shape R = shape B \<and>
             is_svd R U (map_entries (\<lambda>\<sigma>. max (\<sigma> - t) 0) s) Vt"
proof -
  from fac obtain m n where shB: "shape B = [m, n]" by (rule is_svd_shape)
  define k where "k = min m n"
  define s' where "s' = map_entries (\<lambda>\<sigma>. max (\<sigma> - t) 0) s"
  from fac have dense: "\<not> issparse B" "\<not> issparse U" "\<not> issparse s" "\<not> issparse Vt"
    and wfs: "wf U" "wf s" "wf Vt"
    and shs: "shape U = [m, k]" "shape s = [k]" "shape Vt = [k, n]"
    and orthU: "list_all (\<lambda>i. list_all (\<lambda>j.
               sum_list (map (\<lambda>l. entry U l i * entry U l j) [0..<m]) = (if i = j then 1 else 0))
             [0..<k]) [0..<k]"
    and orthV: "list_all (\<lambda>i. list_all (\<lambda>j.
               sum_list (map (\<lambda>l. entry Vt i l * entry Vt j l) [0..<n]) = (if i = j then 1 else 0))
             [0..<k]) [0..<k]"
    and nonneg: "list_all (\<lambda>x. 0 \<le> x) (entries s)"
    and desc: "sorted (rev (entries s))"
    by (simp_all add: is_svd_def shB k_def Let_def)
  have s'_eq: "max_elemwise (map_entries (\<lambda>y. y - t) s) 0 = s'"
    by (simp add: s'_def max_elemwise_def map_entries_def o_def)
  have s'_props: "\<not> issparse s'" "shape s' = [k]" "wf s'"
    using dense shs wfs by (simp_all add: s'_def map_entries_def wf_def)
  define D where "D = ndarray [k, k]
      (concat (map (\<lambda>i. map (\<lambda>j. if i = j then entries s' ! i else 0) [0..<k]) [0..<k]))"
  have diag: "np_diag s' = Inr D"
    using s'_props by (simp add: np_diag_def D_def)
  have eD: "entry D l j = (if l = j then entries s' ! l else 0)" if "l < k" "j < k" for l j
    using that unfolding D_def by (rule entry_ndarray_table)
  define UD where "UD = ndarray [m, k]
      (concat (map (\<lambda>i. map (\<lambda>j. sum_list (map (\<lambda>l. entry U i l * entry D l j) [0..<k]))
         [0..<k]) [0..<m]))"
  have dot1: "np_dot U D = Inr UD"
    using dense shs by (simp add: np_dot_def D_def UD_def ndarray_def)
  have eUD: "entry UD i j = entry U i j * entries s' ! j" if "i < m" "j < k" for i j
  proof -
    have "entry UD i j = sum_list (map (\<lambda>l. entry U i l * entry D l j) [0..<k])"
      using that unfolding UD_def by (rule entry_ndarray_table)
    also have "\<dots> = sum_list (map (\<lambda>l. entry U i l * (if l = j then entries s' ! l else 0)) [0..<k])"
      using that eD by (intro arg_cong [where f = sum_list] map_cong) simp_all
    also have "\<dots> = entry U i j * entries s' ! j"
      using that by (simp add: sum_list_diag)
    finally show ?thesis .
  qed
  define R where "R = ndarray [m, n]
      (concat (map (\<lambda>i. map (\<lambda>j. sum_list (map (\<lambda>l. entry UD i l * entry Vt l j) [0..<k]))
         [0..<n]) [0..<m]))"
  have dot2: "np_dot UD Vt = Inr R"
    using dense shs by (simp add: np_dot_def UD_def R_def ndarray_def)
  have res: "prox_norm_nuc_base svd B t = Inr R"
    using dense shB svd
    by (simp add: prox_norm_nuc_base_def np_linalg_svd_def sub_scalar_def s'_eq diag dot1 dot2)
  have eR: "entry R i j = sum_list (map (\<lambda>l. entry U i l * (entries s' ! l) * entry Vt l j) [0..<k])"
    if "i < m" "j < n" for i j
  proof -
    have "entry R i j = sum_list (map (\<lambda>l. entry UD i l * entry Vt l j) [0..<k])"
      using that unfolding R_def by (rule entry_ndarray_table)
    also have "\<dots> = sum_list (map (\<lambda>l. entry U i l * (entries s' ! l) * entry Vt l j) [0..<k])"
      using that eUD by (intro arg_cong [where f = sum_list] map_cong) simp_all
    finally show ?thesis .
  qed
  have wfR: "wf R" unfolding R_def by (rule wf_ndarray_table)
  have shR: "shape R = [m, n]" "\<not> issparse R" by (simp_all add: R_def ndarray_def)
  have nonneg': "list_all (\<lambda>x. 0 \<le> x) (entries s')"
    by (simp add: s'_def map_entries_def list_all_iff)
  have "mono (\<lambda>\<sigma>::real. max (\<sigma> - t) 0)"
    by (rule monoI) (simp add: max_def)
  then have desc': "sorted (rev (entries s'))"
    using desc by (simp add: s'_def map_entries_def sorted_rev_map_mono)
  have recon: "list_all (\<lambda>i. list_all (\<lambda>j.
        entry R i j = sum_list (map (\<lambda>l. entry U i l * (entries s' ! l) * entry Vt l j) [0..<k]))
      [0..<n]) [0..<m]"
    using eR by (simp add: list_all_iff)
  have "is_svd R U s' Vt"
    using shR wfR dense wfs shs s'_props orthU orthV nonneg' desc' recon
    by (simp add: is_svd_def k_def Let_def)
  then show ?thesis
    using res shR shB by (simp add: s'_def)
qed


lemma upt_2: "[0..<2] = [0, 1]"
  by (simp add: upt_rec)

lemma is_svd_example:
  "is_svd (ndarray [2, 2] [0, 2, 1, 0]) (ndarray [2, 2] [1, 0, 0, 1]) (ndarray [2] [2, 1])
     (ndarray [2, 2] [0, 1, 1, 0])"
  by (simp add: is_svd_def ndarray_def wf_def entry_def ncols_def upt_2)

lemma prox_norm_nuc_base_example:
  "prox_norm_nuc_base
     (\<lambda>B. Inr (ndarray [2, 2] [1, 0, 0, 1], ndarray [2] [2, 1], ndarray [2, 2] [0, 1, 1, 0]))
     (ndarray [2, 2] [0, 2, 1, 0]) t
   = Inr (ndarray [2, 2] [0, max (2 - t) 0, max (1 - t) 0, 0])"
  by (simp add: prox_norm_nuc_base_def np_linalg_svd_def sub_scalar_def max_elemwise_def
      map_entries_def np_diag_def np_dot_def ndarray_def entry_def ncols_def upt_2)

lemma prox_norm_nuc_base_sparse:
  assumes "issparse B"
  shows "prox_norm_nuc_base svd B t = Inl LinAlgError"
  using assms by (simp add: prox_norm_nuc_base_def np_linalg_svd_def)

text \<open>
  C4, as amended: for every dense matrix \<open>B\<close> that \<^verbatim>\<open>np.linalg.svd\<close> factors as
  \<open>U diag(s) Vt\<close>, and every \<open>t\<close>, \<^verbatim>\<open>prox_norm_nuc_base\<close> returns a dense matrix
  \<open>R\<close> of the shape of \<open>B\<close> of which \<open>U\<close>, the values \<open>max (\<sigma>\<^sub>i - t) 0\<close> and \<open>Vt\<close> are
  a singular value decomposition: \<open>R = U diag(max (\<sigma>\<^sub>i - t) 0) Vt\<close>, with the singular
  vectors of \<open>B\<close>.
\<close>

theorem prox_norm_nuc_base_shrinks_singular_values:
  assumes "svd B = Inr (U, s, Vt)" and "is_svd B U s Vt"
  shows "\<exists>R. prox_norm_nuc_base svd B t = Inr R \<and> \<not> issparse R \<and> shape R = shape B \<and>
             is_svd R U (map_entries (\<lambda>\<sigma>. max (\<sigma> - t) 0) s) Vt"
  using assms by (rule nuc_shrinkage)

theorem prox_norm_nuc_base_shrinks_singular_values_witness:
  "is_svd (ndarray [2, 2] [0, 2, 1, 0]) (ndarray [2, 2] [1, 0, 0, 1]) (ndarray [2] [2, 1])
     (ndarray [2, 2] [0, 1, 1, 0]) \<and>
   prox_norm_nuc_base
     (\<lambda>B. Inr (ndarray [2, 2] [1, 0, 0, 1], ndarray [2] [2, 1], ndarray [2, 2] [0, 1, 1, 0]))
     (ndarray [2, 2] [0, 2, 1, 0]) (3 / 2) = Inr (ndarray [2, 2] [0, 1 / 2, 0, 0]) \<and>
   is_svd (ndarray [2, 2] [0, 1 / 2, 0, 0]) (ndarray [2, 2] [1, 0, 0, 1]) (ndarray [2] [1 / 2, 0])
     (ndarray [2, 2] [0, 1, 1, 0])"
proof -
  let ?B = "ndarray [2, 2] [0, 2, 1, 0]"
  let ?U = "ndarray [2, 2] [1, 0, 0, 1]"
  let ?s = "ndarray [2] [2, 1]"
  let ?Vt = "ndarray [2, 2] [0, 1, 1, 0]"
  let ?svd = "\<lambda>B::container. Inr (?U, ?s, ?Vt) :: py_error + container \<times> container \<times> container"
  note fac = is_svd_example
  have val: "prox_norm_nuc_base ?svd ?B (3 / 2) = Inr (ndarray [2, 2] [0, 1 / 2, 0, 0])"
    by (simp add: prox_norm_nuc_base_example)
  have s': "map_entries (\<lambda>\<sigma>. max (\<sigma> - 3 / 2) 0) ?s = ndarray [2] [1 / 2, 0]"
    by (simp add: map_entries_def ndarray_def)
  from prox_norm_nuc_base_shrinks_singular_values [of ?svd ?B ?U ?s ?Vt "3 / 2", OF _ fac]
  have "is_svd (ndarray [2, 2] [0, 1 / 2, 0, 0]) ?U (ndarray [2] [1 / 2, 0]) ?Vt"
    by (simp add: val s')
  with fac val show ?thesis by simp
qed

text \<open>
  C4 as stated also covers sparse input, to be returned dense. \<^verbatim>\<open>np.linalg.svd\<close> does
  not take a scipy sparse matrix: the one by one sparse matrix \<open>[[1]]\<close> raises
  \<^verbatim>\<open>LinAlgError\<close>, whatever the factorisation would return for its values (and so
  does every sparse matrix, \<open>prox_norm_nuc_base_sparse\<close> above).
\<close>

theorem prox_norm_nuc_base_sparse_input:
  "prox_norm_nuc_base
     (\<lambda>B. Inr (ndarray [1, 1] [1], ndarray [1] [1], ndarray [1, 1] [1]))
     (spmatrix 1 1 [1]) 1 = Inl LinAlgError"
  by (simp add: prox_norm_nuc_base_def np_linalg_svd_def spmatrix_def)

subsection \<open>The group lasso\<close>

lemma column_dense:
  assumes "\<not> issparse B" and "shape B = [m, n]"
  shows "column B j = ndarray [m] (map (\<lambda>i. entries B ! (i * n + j)) [0..<m])"
  using assms by (simp add: column_def entry_def ncols_def)

lemma column_sparse:
  assumes "issparse B" and "shape B = [m, n]"
  shows "column B j = spmatrix m 1 (map (\<lambda>i. entries B ! (i * n + j)) [0..<m])"
  using assms by (simp add: column_def entry_def ncols_def)

lemma group_lasso_dense:
  assumes t: "0 < t" and d: "\<not> issparse B" and sh: "shape B = [m, n]" and n: "0 < n"
  shows "\<exists>R. prox_group_lasso_base fmt B t = Inr R \<and> wf R \<and> shape R = shape B \<and>
             issparse R = issparse B \<and>
             (\<forall>j<n. prox_norm2_base (column B j) t = Inr (column R j))"
proof -
  define g where "g j = projr (prox_norm2_base (column B j) t)" for j
  have col: "prox_norm2_base (column B j) t = Inr (g j) \<and> \<not> issparse (g j) \<and>
      shape (g j) = [m] \<and> length (entries (g j)) = m" for j
  proof -
    have "wf (column B j)" "length (shape (column B j)) = 1"
      by (simp_all add: column_dense [OF d sh] ndarray_def wf_def)
    from prox_norm2_base_returns [OF this(1), of t] this(2)
    obtain r where "prox_norm2_base (column B j) t = Inr r" "issparse r = issparse (column B j)"
      "shape r = shape (column B j)" "length (entries r) = length (entries (column B j))"
      by auto
    then show ?thesis
      by (simp add: g_def column_dense [OF d sh] ndarray_def)
  qed
  have gj: "g j = ndarray [m] (entries (g j))" for j
    using col [of j] by (simp add: ndarray_def)
  have cols: "collect (map (\<lambda>j. case getcol fmt B j of
                                      Inl e \<Rightarrow> Inl e
                                    | Inr c \<Rightarrow> prox_norm2 c t default_params) [0..<n])
      = Inr (map g [0..<n])"
    by (rule collect_map_Inr)
      (simp add: getcol_def d prox_norm2_def prox_scale_default [OF t] col)
  have ne: "map g [0..<n] \<noteq> []" using n by simp
  have hd: "hd (map g [0..<n]) = g 0" using n by (simp add: hd_map upt_conv_Cons)
  define S where "S = ndarray [n, m] (concat (map (\<lambda>j. entries (g j)) [0..<n]))"
  have vs: "np_vstack (map g [0..<n]) = Inr S"
    using ne hd col by (simp add: np_vstack_def list_all_iff S_def o_def)
  have eS: "entry S j i = entries (g j) ! i" if "j < n" "i < m" for i j
    using that nth_concat_map_upt [of n "\<lambda>j. entries (g j)" m j i] col
    by (simp add: entry_def ncols_def S_def ndarray_def)
  define R where "R = ndarray [m, n] (concat (map (\<lambda>i. map (\<lambda>j. entry S j i) [0..<n]) [0..<m]))"
  have T: "np_T S = Inr R"
    by (simp add: np_T_def S_def R_def ndarray_def)
  have res: "prox_group_lasso_base fmt B t = Inr R"
    using d by (simp add: prox_group_lasso_base_def sh cols vs T)
  have wfR: "wf R"
    unfolding R_def by (rule wf_ndarray_table)
  have eR: "entry R i j = entries (g j) ! i" if "j < n" "i < m" for i j
    using that entry_ndarray_table [of i m j n "\<lambda>i j. entry S j i"] eS
    by (simp add: R_def)
  have "column R j = g j" if "j < n" for j
  proof -
    have "map (\<lambda>i. entry R i j) [0..<m] = map (\<lambda>i. entries (g j) ! i) [0..<m]"
      using eR that by simp
    also have "\<dots> = entries (g j)"
      using col [of j] map_nth [of "entries (g j)"] by simp
    finally show ?thesis
      using gj [of j] by (simp add: column_def R_def ndarray_def)
  qed
  then show ?thesis
    using res wfR col by (auto simp: R_def ndarray_def sh d)
qed

lemma group_lasso_sparse:
  assumes t: "0 < t" and d: "issparse B" and sub: "subscriptable fmt"
    and sh: "shape B = [m, n]" and n: "0 < n"
  shows "\<exists>R. prox_group_lasso_base fmt B t = Inr R \<and> wf R \<and> shape R = shape B \<and>
             issparse R = issparse B \<and>
             (\<forall>j<n. prox_norm2_base (column B j) t = Inr (column R j))"
proof -
  define g where "g j = projr (prox_norm2_base (column B j) t)" for j
  have col: "prox_norm2_base (column B j) t = Inr (g j) \<and> issparse (g j) \<and>
      shape (g j) = [m, 1] \<and> length (entries (g j)) = m" for j
  proof -
    have "wf (column B j)" "length (shape (column B j)) = 2"
      by (simp_all add: column_sparse [OF d sh] spmatrix_def wf_def)
    from prox_norm2_base_returns [OF this(1), of t] this(2)
    obtain r where "prox_norm2_base (column B j) t = Inr r" "issparse r = issparse (column B j)"
      "shape r = shape (column B j)" "length (entries r) = length (entries (column B j))"
      by auto
    then show ?thesis
      by (simp add: g_def column_sparse [OF d sh] spmatrix_def)
  qed
  have gj: "g j = spmatrix m 1 (entries (g j))" for j
    using col [of j] by (simp add: spmatrix_def)
  have cols: "collect (map (\<lambda>j. case getcol fmt B j of
                                      Inl e \<Rightarrow> Inl e
                                    | Inr c \<Rightarrow> prox_norm2 c t default_params) [0..<n])
      = Inr (map g [0..<n])"
    by (rule collect_map_Inr)
      (simp add: getcol_def sub prox_norm2_def prox_scale_default [OF t] col)
  have ne: "map g [0..<n] \<noteq> []" using n by simp
  have hd: "hd (map g [0..<n]) = g 0" using n by (simp add: hd_map upt_conv_Cons)
  have nc: "sum_list (map ncols (map g [0..<n])) = n"
    using sum_list_map_const1 [of "map g [0..<n]" ncols] col by (simp add: ncols_def)
  have row: "concat (map (\<lambda>x. row_of x i) (map g [0..<n])) = map (\<lambda>j. entries (g j) ! i) [0..<n]"
    if "i < m" for i
  proof -
    have "row_of (g j) i = [entries (g j) ! i]" for j
      using that col [of j] by (simp add: row_of_def ncols_def take1_drop)
    then have "concat (map (\<lambda>x. row_of x i) (map g [0..<n]))
        = concat (map (\<lambda>j. [entries (g j) ! i]) [0..<n])"
      by (simp add: o_def)
    then show ?thesis
      by (simp only: concat_map_singleton)
  qed
  define R where "R = spmatrix m n (concat (map (\<lambda>i. map (\<lambda>j. entries (g j) ! i) [0..<n]) [0..<m]))"
  have rows: "concat (map (\<lambda>i. concat (map (\<lambda>x. row_of x i) (map g [0..<n]))) [0..<m])
      = concat (map (\<lambda>i. map (\<lambda>j. entries (g j) ! i) [0..<n]) [0..<m])"
    by (rule arg_cong [where f = concat], rule map_cong) (simp_all add: row del: map_map)
  have "sparse_hstack (map g [0..<n]) = Inr (spmatrix m n
      (concat (map (\<lambda>i. concat (map (\<lambda>x. row_of x i) (map g [0..<n]))) [0..<m])))"
    using ne hd col nc by (simp add: sparse_hstack_def list_all_iff Let_def)
  then have hs: "sparse_hstack (map g [0..<n]) = Inr R"
    by (simp only: rows R_def)
  have res: "prox_group_lasso_base fmt B t = Inr R"
    using d by (simp add: prox_group_lasso_base_def sh cols hs)
  have wfR: "wf R"
    using length_concat_map_upt [of m "\<lambda>i. map (\<lambda>j. entries (g j) ! i) [0..<n]" n]
    by (simp add: wf_def R_def spmatrix_def)
  have eR: "entry R i j = entries (g j) ! i" if "j < n" "i < m" for i j
    using that nth_concat_map_upt [of m "\<lambda>i. map (\<lambda>j. entries (g j) ! i) [0..<n]" n i j]
    by (simp add: entry_def ncols_def R_def spmatrix_def)
  have "column R j = g j" if "j < n" for j
  proof -
    have "map (\<lambda>i. entry R i j) [0..<m] = map (\<lambda>i. entries (g j) ! i) [0..<m]"
      using eR that by simp
    also have "\<dots> = entries (g j)"
      using col [of j] map_nth [of "entries (g j)"] by simp
    finally show ?thesis
      using gj [of j] by (simp add: column_def R_def spmatrix_def)
  qed
  then show ?thesis
    using res wfR col by (auto simp: R_def spmatrix_def sh d)
qed

lemma group_lasso_not_subscriptable:
  assumes "issparse B" and "\<not> subscriptable fmt" and "shape B = [m, n]" and "0 < n"
  shows "prox_group_lasso_base fmt B t = Inl TypeError"
  using assms by (simp add: prox_group_lasso_base_def getcol_def upt_conv_Cons)

text \<open>
  C5, as amended: for every \<open>t > 0\<close> and every matrix \<open>B\<close> with at least one column that
  is an array or a sparse matrix in a storage format that supports indexing (csr, csc,
  lil, dok), \<^verbatim>\<open>prox_group_lasso_base\<close> returns a matrix of the shape and the
  representation of \<open>B\<close> whose column \<open>j\<close> is \<^verbatim>\<open>prox_norm2\<close> of column \<open>j\<close> of \<open>B\<close>
  with the default parameters, which is \<^verbatim>\<open>prox_norm2_base\<close> of that column, for every
  \<open>j\<close>; a sparse \<open>B\<close> gives a sparse result.
\<close>

theorem prox_group_lasso_base_columns:
  assumes "0 < t" and "wf B" and "shape B = [m, n]" and "0 < n"
    and "issparse B \<longrightarrow> subscriptable fmt"
  shows "\<exists>R. prox_group_lasso_base fmt B t = Inr R \<and> wf R \<and> shape R = shape B \<and>
             issparse R = issparse B \<and>
             (\<forall>j<n. prox_norm2 (column B j) t default_params = Inr (column R j) \<and>
                    prox_norm2_base (column B j) t = Inr (column R j))"
  using assms group_lasso_dense [of t B m n fmt] group_lasso_sparse [of t B fmt m n]
  by (cases "issparse B") (simp_all add: prox_norm2_def prox_scale_default)

theorem prox_group_lasso_base_columns_witness:
  "(0::real) < 2 \<and> wf (ndarray [2, 2] [3, 0, 4, 0]) \<and>
   prox_group_lasso_base CSR (ndarray [2, 2] [3, 0, 4, 0]) 2
     = Inr (ndarray [2, 2] [9 / 5, 0, 12 / 5, 0]) \<and>
   prox_norm2_base (column (ndarray [2, 2] [3, 0, 4, 0]) 0) 2
     = Inr (column (ndarray [2, 2] [9 / 5, 0, 12 / 5, 0]) 0) \<and>
   prox_norm2_base (column (ndarray [2, 2] [3, 0, 4, 0]) 1) 2
     = Inr (column (ndarray [2, 2] [9 / 5, 0, 12 / 5, 0]) 1) \<and>
   wf (spmatrix 2 2 [3, 0, 4, 0]) \<and> subscriptable CSR \<and>
   prox_group_lasso_base CSR (spmatrix 2 2 [3, 0, 4, 0]) 2
     = Inr (spmatrix 2 2 [9 / 5, 0, 12 / 5, 0]) \<and>
   prox_norm2_base (column (spmatrix 2 2 [3, 0, 4, 0]) 0) 2
     = Inr (column (spmatrix 2 2 [9 / 5, 0, 12 / 5, 0]) 0) \<and>
   prox_norm2_base (column (spmatrix 2 2 [3, 0, 4, 0]) 1) 2
     = Inr (column (spmatrix 2 2 [9 / 5, 0, 12 / 5, 0]) 1)"
proof -
  let ?B = "ndarray [2, 2] [3, 0, 4, 0]"
  let ?S = "spmatrix 2 2 [3, 0, 4, 0]"
  have up: "[0..<2] = [0, 1]"
    by (simp add: upt_rec)
  have wfs: "wf ?B" "wf ?S"
    by (simp_all add: wf_def ndarray_def spmatrix_def)
  have c0: "prox_norm2_base (column ?B 0) 2 = Inr (ndarray [2] [9 / 5, 12 / 5])"
    by (simp add: column_def entry_def ncols_def ndarray_def up prox_norm2_base_def norm_of_def
        np_linalg_norm_def l2norm_3_4 mul_scalar_def map_entries_def)
  have c1: "prox_norm2_base (column ?B 1) 2 = Inr (ndarray [2] [0, 0])"
    by (simp add: column_def entry_def ncols_def ndarray_def up prox_norm2_base_def norm_of_def
        np_linalg_norm_def l2norm_def zeros_of_def np_zeros_def replicate_2)
  have s0: "prox_norm2_base (column ?S 0) 2 = Inr (spmatrix 2 1 [9 / 5, 12 / 5])"
    by (simp add: column_def entry_def ncols_def spmatrix_def up prox_norm2_base_def norm_of_def
        sparse_linalg_norm_def l2norm_3_4 mul_scalar_def map_entries_def)
  have s1: "prox_norm2_base (column ?S 1) 2 = Inr (spmatrix 2 1 [0, 0])"
    by (simp add: column_def entry_def ncols_def spmatrix_def up prox_norm2_base_def norm_of_def
        sparse_linalg_norm_def l2norm_def zeros_of_def csr_matrix_def replicate_2)
  have val: "prox_group_lasso_base CSR ?B 2 = Inr (ndarray [2, 2] [9 / 5, 0, 12 / 5, 0])"
    using c0 c1
    by (simp add: prox_group_lasso_base_def getcol_def prox_norm2_def prox_scale_default up
        np_vstack_def np_T_def ndarray_def entry_def ncols_def)
  have vals: "prox_group_lasso_base CSR ?S 2 = Inr (spmatrix 2 2 [9 / 5, 0, 12 / 5, 0])"
    using s0 s1
    by (simp add: prox_group_lasso_base_def getcol_def prox_norm2_def prox_scale_default up
        sparse_hstack_def spmatrix_def row_of_def ncols_def)
  from prox_group_lasso_base_columns [of 2 ?B 2 2 CSR] wfs
  obtain R where R: "prox_group_lasso_base CSR ?B 2 = Inr R"
      "\<forall>j<2. prox_norm2_base (column ?B j) 2 = Inr (column R j)"
    by (auto simp: ndarray_def)
  from R val have "\<forall>j<2. prox_norm2_base (column ?B j) 2
      = Inr (column (ndarray [2, 2] [9 / 5, 0, 12 / 5, 0]) j)"
    by simp
  then have dense: "prox_norm2_base (column ?B 0) 2
        = Inr (column (ndarray [2, 2] [9 / 5, 0, 12 / 5, 0]) 0)"
      "prox_norm2_base (column ?B 1) 2 = Inr (column (ndarray [2, 2] [9 / 5, 0, 12 / 5, 0]) 1)"
    by simp_all
  from prox_group_lasso_base_columns [of 2 ?S 2 2 CSR] wfs
  obtain Q where Q: "prox_group_lasso_base CSR ?S 2 = Inr Q"
      "\<forall>j<2. prox_norm2_base (column ?S j) 2 = Inr (column Q j)"
    by (auto simp: spmatrix_def)
  from Q vals have "\<forall>j<2. prox_norm2_base (column ?S j) 2
      = Inr (column (spmatrix 2 2 [9 / 5, 0, 12 / 5, 0]) j)"
    by simp
  then have sparse: "prox_norm2_base (column ?S 0) 2
        = Inr (column (spmatrix 2 2 [9 / 5, 0, 12 / 5, 0]) 0)"
      "prox_norm2_base (column ?S 1) 2 = Inr (column (spmatrix 2 2 [9 / 5, 0, 12 / 5, 0]) 1)"
    by simp_all
  from wfs val vals dense sparse show ?thesis by simp
qed

text \<open>
  C5 as stated is about every dense or sparse matrix. A matrix with no column gives the
  empty list of columns, which \<^verbatim>\<open>np.vstack\<close> refuses with \<^verbatim>\<open>ValueError\<close>; and a
  sparse matrix in coo format is not subscriptable, so that \<^verbatim>\<open>B[:,0]\<close> raises
  \<^verbatim>\<open>TypeError\<close>.
\<close>

theorem prox_group_lasso_base_no_columns:
  "prox_group_lasso_base CSR (ndarray [2, 0] []) 1 = Inl ValueError \<and>
   prox_group_lasso_base COO (spmatrix 2 2 [3, 0, 4, 0]) 2 = Inl TypeError"
  by (simp add: prox_group_lasso_base_def ndarray_def spmatrix_def np_vstack_def getcol_def
      upt_rec)

subsection \<open>The public operators\<close>

text \<open>
  C6: for every input \<open>v\<close> and every \<open>t > 0\<close>, each of the five public operators with
  the default parameters \<open>a = 1\<close>, \<open>b = 0\<close>, \<open>c = 0\<close>, \<open>d = 0\<close> returns what its base
  operator returns for \<open>v\<close> and \<open>t\<close>, an exception of the base operator included.
\<close>

theorem default_params_identity:
  assumes "0 < t"
  shows "prox_norm1 v t default_params = prox_norm1_base v t \<and>
         prox_norm2 v t default_params = prox_norm2_base v t \<and>
         prox_norm_inf proj_l1 v t default_params = prox_norm_inf_base proj_l1 v t \<and>
         prox_norm_nuc svd v t default_params = prox_norm_nuc_base svd v t \<and>
         prox_group_lasso fmt v t default_params = prox_group_lasso_base fmt v t"
  using assms
  by (simp add: prox_norm1_def prox_norm2_def prox_norm_inf_def prox_norm_nuc_def
      prox_group_lasso_def prox_scale_default)

theorem default_params_identity_witness:
  "(0::real) < 1 \<and>
   prox_norm1 (ndarray [3] [3, - 1, 0.5]) 1 default_params
     = prox_norm1_base (ndarray [3] [3, - 1, 0.5]) 1 \<and>
   prox_norm1 (ndarray [3] [3, - 1, 0.5]) 1 default_params = Inr (ndarray [3] [2, 0, 0]) \<and>
   prox_norm2 (ndarray [3] [3, - 1, 0.5]) 1 default_params
     = prox_norm2_base (ndarray [3] [3, - 1, 0.5]) 1 \<and>
   prox_norm_inf Inr (ndarray [3] [3, - 1, 0.5]) 1 default_params
     = prox_norm_inf_base Inr (ndarray [3] [3, - 1, 0.5]) 1 \<and>
   prox_norm_nuc (\<lambda>B. Inl LinAlgError) (ndarray [3] [3, - 1, 0.5]) 1 default_params
     = prox_norm_nuc_base (\<lambda>B. Inl LinAlgError) (ndarray [3] [3, - 1, 0.5]) 1 \<and>
   prox_group_lasso CSR (ndarray [3] [3, - 1, 0.5]) 1 default_params
     = prox_group_lasso_base CSR (ndarray [3] [3, - 1, 0.5]) 1"
  using default_params_identity [of 1 "ndarray [3] [3, - 1, 0.5]" Inr "\<lambda>B. Inl LinAlgError" CSR]
    prox_norm1_example
  by simp

lemma group_lasso_nonpositive:
  assumes "t \<le> 0" and "shape B = [m, n]" and "0 < n" and "issparse B \<longrightarrow> subscriptable fmt"
  shows "prox_group_lasso_base fmt B t = Inl ValidationFailure"
  using assms
  by (auto simp: prox_group_lasso_base_def getcol_def upt_conv_Cons prox_norm2_def prox_scale_def
      Let_def)

text \<open>
  C7, as amended: for every input, every parameter bundle and every \<open>t \<le> 0\<close>, each of
  the five public operators fails with the validation failure of the composition
  transform, before its base operator is called (whatever the base operator is) and
  without clamping \<open>t\<close>; and so does \<^verbatim>\<open>prox_group_lasso_base\<close> on a matrix with at
  least one column (an array, or a sparse matrix in a format that supports indexing),
  because it calls the public \<^verbatim>\<open>prox_norm2\<close> on its first column. The other four base
  operators have no check of \<open>t\<close> and compute with a \<open>t \<le> 0\<close>: \<^verbatim>\<open>prox_norm1_base\<close>
  returns \<open>max (x - t) 0 - max (- x - t) 0\<close> in every coordinate of an array;
  \<^verbatim>\<open>prox_norm2_base\<close> returns, for a one- or two-dimensional container, the zero
  container when the norm is zero and \<open>(1 - t / \<parallel>v\<parallel>) v\<close> otherwise;
  \<^verbatim>\<open>prox_norm_inf_base\<close> returns, for \<open>t < 0\<close>, \<open>v - t p\<close> for the \<open>p\<close> of the shape of
  \<open>v\<close> that \<^verbatim>\<open>proj_l1\<close> returns for \<open>v / t\<close>; \<^verbatim>\<open>prox_norm_nuc_base\<close> returns, for a
  dense matrix that \<^verbatim>\<open>np.linalg.svd\<close> factors as \<open>U diag(s) Vt\<close>, the matrix
  \<open>U diag(max (s\<^sub>i - t) 0) Vt\<close>.
\<close>

theorem nonpositive_step_rejected:
  assumes "t \<le> 0"
  shows "prox_scale prox p v t = Inl ValidationFailure \<and>
         prox_norm1 v t p = Inl ValidationFailure \<and>
         prox_norm2 v t p = Inl ValidationFailure \<and>
         prox_norm_inf proj v t p = Inl ValidationFailure \<and>
         prox_norm_nuc svd v t p = Inl ValidationFailure \<and>
         prox_group_lasso fmt v t p = Inl ValidationFailure \<and>
         (shape B = [m, n] \<and> 0 < n \<and> (issparse B \<longrightarrow> subscriptable fmt) \<longrightarrow>
            prox_group_lasso_base fmt B t = Inl ValidationFailure) \<and>
         prox_norm1_base (ndarray sh xs) t =
           Inr (ndarray sh (map (\<lambda>x. max (x - t) 0 - max (- x - t) 0) xs)) \<and>
         (wf w \<and> (length (shape w) = 1 \<or> length (shape w) = 2) \<longrightarrow>
            prox_norm2_base w t =
              Inr (if l2norm (entries w) = 0 then zeros_of w (shape w)
                   else mul_scalar (1 - t / l2norm (entries w)) w)) \<and>
         (t < 0 \<and> proj (map_entries (\<lambda>y. y / t) u) = Inr q \<and> shape q = shape u \<longrightarrow>
            prox_norm_inf_base proj u t =
              Inr \<lparr>issparse = issparse u \<and> issparse q, shape = shape u,
                   entries = map2 (\<lambda>x y. x - t * y) (entries u) (entries q)\<rparr>) \<and>
         (svd A = Inr (U, s, Vt) \<and> is_svd A U s Vt \<longrightarrow>
            (\<exists>R. prox_norm_nuc_base svd A t = Inr R \<and> \<not> issparse R \<and> shape R = shape A \<and>
                 is_svd R U (map_entries (\<lambda>\<sigma>. max (\<sigma> - t) 0) s) Vt))"
proof -
  have guard: "prox_scale f p v t = Inl ValidationFailure" for f
    using assms by (simp add: prox_scale_def Let_def)
  have gl: "shape B = [m, n] \<and> 0 < n \<and> (issparse B \<longrightarrow> subscriptable fmt) \<longrightarrow>
      prox_group_lasso_base fmt B t = Inl ValidationFailure"
    using assms group_lasso_nonpositive [of t B m n fmt] by blast
  have n1: "prox_norm1_base (ndarray sh xs) t =
      Inr (ndarray sh (map (\<lambda>x. max (x - t) 0 - max (- x - t) 0) xs))"
    by (simp add: prox_norm1_base_dense_raw ndarray_def)
  have n2: "wf w \<and> (length (shape w) = 1 \<or> length (shape w) = 2) \<longrightarrow>
      prox_norm2_base w t =
        Inr (if l2norm (entries w) = 0 then zeros_of w (shape w)
             else mul_scalar (1 - t / l2norm (entries w)) w)"
    using assms prox_norm2_base_nonpositive [of t w] by blast
  have ninf: "t < 0 \<and> proj (map_entries (\<lambda>y. y / t) u) = Inr q \<and> shape q = shape u \<longrightarrow>
      prox_norm_inf_base proj u t =
        Inr \<lparr>issparse = issparse u \<and> issparse q, shape = shape u,
             entries = map2 (\<lambda>x y. x - t * y) (entries u) (entries q)\<rparr>"
    using prox_norm_inf_base_value [of t proj u q] by auto
  have nuc: "svd A = Inr (U, s, Vt) \<and> is_svd A U s Vt \<longrightarrow>
      (\<exists>R. prox_norm_nuc_base svd A t = Inr R \<and> \<not> issparse R \<and> shape R = shape A \<and>
           is_svd R U (map_entries (\<lambda>\<sigma>. max (\<sigma> - t) 0) s) Vt)"
    using nuc_shrinkage [of svd A U s Vt t] by blast
  show ?thesis
    unfolding prox_norm1_def prox_norm2_def prox_norm_inf_def prox_norm_nuc_def
      prox_group_lasso_def
    using guard gl n1 n2 ninf nuc by blast
qed

theorem nonpositive_step_rejected_witness:
  "(- 1::real) \<le> 0 \<and>
   prox_scale (\<lambda>v t. Inr v) default_params (ndarray [2] [3, 4]) (- 1) = Inl ValidationFailure \<and>
   prox_norm1 (ndarray [2] [3, 4]) (- 1) default_params = Inl ValidationFailure \<and>
   prox_norm2 (ndarray [2] [3, 4]) (- 1) default_params = Inl ValidationFailure \<and>
   prox_norm_inf (\<lambda>u. Inr (ndarray [2] [1, 0])) (ndarray [2] [3, 4]) (- 1) default_params
     = Inl ValidationFailure \<and>
   prox_norm_nuc
     (\<lambda>B. Inr (ndarray [2, 2] [1, 0, 0, 1], ndarray [2] [2, 1], ndarray [2, 2] [0, 1, 1, 0]))
     (ndarray [2] [3, 4]) (- 1) default_params = Inl ValidationFailure \<and>
   prox_group_lasso CSR (ndarray [2] [3, 4]) (- 1) default_params = Inl ValidationFailure \<and>
   prox_group_lasso_base CSR (ndarray [2, 2] [3, 0, 4, 0]) (- 1) = Inl ValidationFailure \<and>
   prox_norm1_base (ndarray [2] [3, 4]) (- 1) = Inr (ndarray [2] [4, 5]) \<and>
   prox_norm2_base (ndarray [2] [3, 4]) (- 1) = Inr (ndarray [2] [18 / 5, 24 / 5]) \<and>
   prox_norm_inf_base (\<lambda>u. Inr (ndarray [2] [1, 0])) (ndarray [2] [3, 4]) (- 1)
     = Inr (ndarray [2] [4, 4]) \<and>
   prox_norm_nuc_base
     (\<lambda>B. Inr (ndarray [2, 2] [1, 0, 0, 1], ndarray [2] [2, 1], ndarray [2, 2] [0, 1, 1, 0]))
     (ndarray [2, 2] [0, 2, 1, 0]) (- 1) = Inr (ndarray [2, 2] [0, 3, 2, 0]) \<and>
   is_svd (ndarray [2, 2] [0, 3, 2, 0]) (ndarray [2, 2] [1, 0, 0, 1]) (ndarray [2] [3, 2])
     (ndarray [2, 2] [0, 1, 1, 0])"
proof -
  let ?v = "ndarray [2] [3, 4]"
  let ?proj = "\<lambda>u::container. Inr (ndarray [2] [1, 0]) :: py_error + container"
  let ?A = "ndarray [2, 2] [0, 2, 1, 0]"
  let ?U = "ndarray [2, 2] [1, 0, 0, 1]"
  let ?s = "ndarray [2] [2, 1]"
  let ?Vt = "ndarray [2, 2] [0, 1, 1, 0]"
  let ?svd = "\<lambda>B::container. Inr (?U, ?s, ?Vt) :: py_error + container \<times> container \<times> container"
  let ?B = "ndarray [2, 2] [3, 0, 4, 0]"
  have le: "(- 1::real) \<le> 0" by simp
  note T = nonpositive_step_rejected [OF le, where prox = "\<lambda>v t. Inr v" and p = default_params
      and v = ?v and proj = ?proj and svd = ?svd and fmt = CSR and B = ?B and m = 2 and n = 2
      and sh = "[2]" and xs = "[3, 4]" and w = ?v and u = ?v and q = "ndarray [2] [1, 0]"
      and A = ?A and U = ?U and s = ?s and Vt = ?Vt]
  have facades: "prox_scale (\<lambda>v t. Inr v) default_params ?v (- 1) = Inl ValidationFailure"
      "prox_norm1 ?v (- 1) default_params = Inl ValidationFailure"
      "prox_norm2 ?v (- 1) default_params = Inl ValidationFailure"
      "prox_norm_inf ?proj ?v (- 1) default_params = Inl ValidationFailure"
      "prox_norm_nuc ?svd ?v (- 1) default_params = Inl ValidationFailure"
      "prox_group_lasso CSR ?v (- 1) default_params = Inl ValidationFailure"
    using T by blast+
  have "shape ?B = [2, 2]" "\<not> issparse ?B"
    by (simp_all add: ndarray_def)
  with T have gl: "prox_group_lasso_base CSR ?B (- 1) = Inl ValidationFailure"
    by simp
  from T have "prox_norm1_base ?v (- 1)
      = Inr (ndarray [2] (map (\<lambda>x. max (x - - 1) 0 - max (- x - - 1) 0) [3, 4]))"
    by blast
  then have n1: "prox_norm1_base ?v (- 1) = Inr (ndarray [2] [4, 5])"
    by simp
  have "wf ?v" "length (shape ?v) = 1"
    by (simp_all add: wf_def ndarray_def)
  with T have "prox_norm2_base ?v (- 1)
      = Inr (if l2norm (entries ?v) = 0 then zeros_of ?v (shape ?v)
             else mul_scalar (1 - - 1 / l2norm (entries ?v)) ?v)"
    by blast
  then have n2: "prox_norm2_base ?v (- 1) = Inr (ndarray [2] [18 / 5, 24 / 5])"
    by (simp add: ndarray_def l2norm_3_4 mul_scalar_def map_entries_def)
  have "?proj (map_entries (\<lambda>y. y / - 1) ?v) = Inr (ndarray [2] [1, 0])"
      "shape (ndarray [2] [1, 0]) = shape ?v"
    by (simp_all add: ndarray_def)
  with T have "prox_norm_inf_base ?proj ?v (- 1)
      = Inr \<lparr>issparse = issparse ?v \<and> issparse (ndarray [2] [1, 0]), shape = shape ?v,
             entries = map2 (\<lambda>x y. x - - 1 * y) (entries ?v) (entries (ndarray [2] [1, 0]))\<rparr>"
    by simp
  then have ninf: "prox_norm_inf_base ?proj ?v (- 1) = Inr (ndarray [2] [4, 4])"
    by (simp add: ndarray_def)
  have val: "prox_norm_nuc_base ?svd ?A (- 1) = Inr (ndarray [2, 2] [0, 3, 2, 0])"
    by (simp add: prox_norm_nuc_base_example)
  have s': "map_entries (\<lambda>\<sigma>. max (\<sigma> + 1) 0) ?s = ndarray [2] [3, 2]"
    by (simp add: map_entries_def ndarray_def)
  from T is_svd_example
  have "\<exists>R. prox_norm_nuc_base ?svd ?A (- 1) = Inr R \<and> \<not> issparse R \<and> shape R = shape ?A \<and>
      is_svd R ?U (map_entries (\<lambda>\<sigma>. max (\<sigma> - - 1) 0) ?s) ?Vt"
    by blast
  then have nuc: "is_svd (ndarray [2, 2] [0, 3, 2, 0]) ?U (ndarray [2] [3, 2]) ?Vt"
    by (simp add: val s')
  from le facades gl n1 n2 ninf val nuc show ?thesis by simp
qed

text \<open>
  C7 as stated has every operator reject \<open>t \<le> 0\<close>. The base operator
  \<^verbatim>\<open>prox_norm1_base\<close> has no such check: with \<open>t = -1\<close> it returns \<open>[2]\<close> for
  the array \<open>[1]\<close>.
\<close>

theorem prox_norm1_base_negative_step:
  "prox_norm1_base (ndarray [1] [1]) (- 1) = Inr (ndarray [1] [2])"
  by (simp add: prox_norm1_base_dense_raw ndarray_def)

subsection \<open>The zero norm, sparse input and the number of dimensions\<close>

text \<open>
  C8: for a one- or two-dimensional \<open>v\<close> whose norm is zero, \<^verbatim>\<open>prox_norm2_base\<close>
  does not raise: it returns the zero container of the shape and the representation of
  \<open>v\<close>, for every \<open>t\<close>.
\<close>

theorem prox_norm2_base_zero_norm:
  assumes "wf v" and "length (shape v) = 1 \<or> length (shape v) = 2"
    and "l2norm (entries v) = 0"
  shows "prox_norm2_base v t =
     Inr \<lparr>issparse = issparse v, shape = shape v, entries = replicate (prod_list (shape v)) 0\<rparr>"
  using assms(3) norm_of_wf [OF assms(1,2)]
  by (simp add: prox_norm2_base_def zeros_of_eq)

theorem prox_norm2_base_zero_norm_witness:
  "wf (ndarray [2] [0, 0]) \<and> l2norm (entries (ndarray [2] [0, 0])) = 0 \<and>
   prox_norm2_base (ndarray [2] [0, 0]) 1 = Inr (ndarray [2] [0, 0]) \<and>
   wf (spmatrix 1 2 [0, 0]) \<and> l2norm (entries (spmatrix 1 2 [0, 0])) = 0 \<and>
   prox_norm2_base (spmatrix 1 2 [0, 0]) 1 = Inr (spmatrix 1 2 [0, 0])"
  using prox_norm2_base_zero_norm [of "ndarray [2] [0, 0]" 1]
    prox_norm2_base_zero_norm [of "spmatrix 1 2 [0, 0]" 1]
  by (simp add: ndarray_def spmatrix_def wf_def l2norm_def replicate_2)

text \<open>
  C9: \<^verbatim>\<open>prox_norm1_base\<close> succeeds on every sparse input with \<open>t > 0\<close> and returns a
  sparse container. The code does the opposite: on every sparse input with \<open>t > 0\<close> the
  subtraction \<^verbatim>\<open>v - t\<close> raises \<^verbatim>\<open>NotImplementedError\<close>, before the sparse
  elementwise maximum is reached.
\<close>

theorem prox_norm1_base_sparse_raises:
  assumes "issparse v" and "0 < t"
  shows "prox_norm1_base v t = Inl NotImplementedError"
  using assms by (simp add: prox_norm1_base_def sub_scalar_def)

theorem prox_norm1_base_sparse_raises_witness:
  "issparse (spmatrix 2 2 [1, 0, 0, - 3]) \<and> (0::real) < 1 / 2 \<and>
   prox_norm1_base (spmatrix 2 2 [1, 0, 0, - 3]) (1 / 2) = Inl NotImplementedError"
  using prox_norm1_base_sparse_raises [of "spmatrix 2 2 [1, 0, 0, - 3]" "1 / 2"]
  by (simp add: spmatrix_def)

text \<open>
  C10: with a number of dimensions that is neither 1 nor 2, \<^verbatim>\<open>prox_norm2_base\<close>
  raises \<^verbatim>\<open>UnboundLocalError\<close>: \<^verbatim>\<open>v_norm\<close> is read and was never bound.
\<close>

theorem prox_norm2_base_unbound:
  assumes "length (shape v) \<noteq> 1" and "length (shape v) \<noteq> 2"
  shows "prox_norm2_base v t = Inl UnboundLocalError"
  using assms by (simp add: prox_norm2_base_def)

theorem prox_norm2_base_unbound_witness:
  "prox_norm2_base (ndarray [] [7]) 1 = Inl UnboundLocalError \<and>
   prox_norm2_base (ndarray [1, 2, 2] [1, 2, 3, 4]) 1 = Inl UnboundLocalError"
  using prox_norm2_base_unbound [of "ndarray [] [7]" 1]
    prox_norm2_base_unbound [of "ndarray [1, 2, 2] [1, 2, 3, 4]" 1]
  by (simp add: ndarray_def)

end
